theory Spec2Isabelle
  imports Complex_Main
begin

section \<open>Python values: exceptions, string rendering, truthiness\<close>

text \<open>
  The exceptions that the modelled code raises or lets through. \<open>HTTPException\<close>
  carries the status code and the detail; \<open>Exception\<close> is the plain exception the
  hypervisor adapter raises with a message; \<open>MultipleResultsFound\<close> is what
  \<^verbatim>\<open>scalar_one_or_none()\<close> raises on more than one row; \<open>IntegrityError\<close> is a
  violated store constraint; \<open>OperationalError\<close> is a commit that the store refuses
  for a reason of its own; \<open>PendingRollbackError\<close> is what a session raises when it is
  used again after a failed flush without a rollback; \<open>KeyError\<close> is a missing
  dictionary key.
\<close>

datatype exn =
    HTTPException nat string
  | Exception string
  | MultipleResultsFound
  | IntegrityError string
  | OperationalError string
  | PendingRollbackError
  | KeyError string

definition digit_char :: "nat \<Rightarrow> char" where
  "digit_char d = char_of (48 + d)"

function str_nat :: "nat \<Rightarrow> string" where
  "str_nat n = (if n < 10 then [digit_char n] else str_nat (n div 10) @ [digit_char (n mod 10)])"
  by pat_completeness auto
termination
  by (relation "measure (\<lambda>n. n)") auto

declare str_nat.simps [simp del]

text \<open>Python's \<^verbatim>\<open>str(i)\<close> on an int, as the f-strings \<^verbatim>\<open>f"VM-{vm_id}"\<close> use it.\<close>

definition str_int :: "int \<Rightarrow> string" where
  "str_int i = (if i < 0 then CHR ''-'' # str_nat (nat (- i)) else str_nat (nat i))"

text \<open>
  \<^verbatim>\<open>str(e)\<close>. A Starlette \<open>HTTPException\<close> prints as \<^verbatim>\<open>"{status_code}: {detail}"\<close>,
  a \<open>KeyError\<close> as the quoted key, the others as their message.
\<close>

fun str_exn :: "exn \<Rightarrow> string" where
  "str_exn (HTTPException c d) = str_nat c @ '': '' @ d"
| "str_exn (Exception m) = m"
| "str_exn MultipleResultsFound = ''Multiple rows were found when one or none was required''"
| "str_exn (IntegrityError m) = m"
| "str_exn (OperationalError m) = m"
| "str_exn PendingRollbackError =
     ''This Session'' @ [CHR 0x27] @
     ''s transaction has been rolled back due to a previous exception during flush.''"
| "str_exn (KeyError k) = [CHR 0x27] @ k @ [CHR 0x27]"

text \<open>
  What the caller of the HTTP surface sees: an \<open>HTTPException\<close> answers with its
  own status code, any other exception that leaves a route answers 500, a returned
  response answers 200.
\<close>

fun status_code :: "exn + 'a \<Rightarrow> nat" where
  "status_code (Inl (HTTPException c d)) = c"
| "status_code (Inl e) = 500"
| "status_code (Inr r) = 200"

text \<open>\<^verbatim>\<open>not s\<close> on an optional string: \<open>None\<close> and the empty string are falsy.\<close>

fun falsy :: "string option \<Rightarrow> bool" where
  "falsy None = True"
| "falsy (Some s) = (s = [])"

section \<open>The hypervisor adapter (app/proxmox.py)\<close>

text \<open>
  The raw dictionary of \<^verbatim>\<open>status.current.get()\<close>: every key may be absent.
\<close>

record vm_config =
  cfg_name :: "string option"
  cfg_status :: "string option"
  cfg_uptime :: "int option"
  cfg_cpu :: "real option"
  cfg_mem :: "int option"
  cfg_maxmem :: "int option"

text \<open>
  The hypervisor is outside the program: its answers are inputs. Each endpoint either
  returns or raises; a raised exception is given by its \<^verbatim>\<open>str(e)\<close>.
\<close>

record proxmox_api =
  status_current_get :: "int \<Rightarrow> string + vm_config"
  status_start_post :: "int \<Rightarrow> string option"
  status_stop_post :: "int \<Rightarrow> string option"
  status_shutdown_post :: "int \<Rightarrow> string option"

text \<open>The calls that reach the hypervisor, in the order they are made.\<close>

datatype hv_call = CurrentGet int | StartPost int | StopPost int | ShutdownPost int

text \<open>
  The dictionaries built by \<^verbatim>\<open>get_vm_status\<close> and \<^verbatim>\<open>get_all_vms\<close>: the normal entry
  has \<open>uptime\<close>, \<open>cpu\<close>, \<open>memory\<close> and \<open>maxmem\<close> and no \<open>error\<close>; the entry of a VM
  whose query failed has \<open>error\<close> only.
\<close>

record vm_info =
  vm_id :: int
  vm_name :: string
  status :: string
  uptime :: "int option"
  cpu :: "real option"
  memory :: "int option"
  maxmem :: "int option"
  error :: "string option"

text \<open>The dictionary returned by \<^verbatim>\<open>start_vm\<close>, \<^verbatim>\<open>stop_vm\<close> and \<^verbatim>\<open>shutdown_vm\<close>.\<close>

record vm_action =
  act_success :: bool
  act_message :: string
  act_vm_id :: int
  act_vm_name :: string
  act_status :: string

definition dict_get :: "'a option \<Rightarrow> 'a \<Rightarrow> 'a" where
  "dict_get v d = (case v of None \<Rightarrow> d | Some x \<Rightarrow> x)"

definition ProxmoxClient_get_vm_status ::
  "proxmox_api \<Rightarrow> int \<Rightarrow> hv_call list \<times> (exn + vm_info)" where
  "ProxmoxClient_get_vm_status px i =
     ([CurrentGet i],
      case status_current_get px i of
        Inl e \<Rightarrow> Inl (Exception (''Failed to get VM status: '' @ e))
      | Inr vm_config \<Rightarrow>
          Inr \<lparr> vm_id = i,
                vm_name = dict_get (cfg_name vm_config) (''VM-'' @ str_int i),
                status = dict_get (cfg_status vm_config) ''unknown'',
                uptime = Some (dict_get (cfg_uptime vm_config) 0),
                cpu = Some (dict_get (cfg_cpu vm_config) 0),
                memory = Some (dict_get (cfg_mem vm_config) 0),
                maxmem = Some (dict_get (cfg_maxmem vm_config) 0),
                error = None \<rparr>)"

definition default_vm_ids :: "int list" where
  "default_vm_ids = [106, 103, 101, 102]"

text \<open>The loop of \<^verbatim>\<open>get_all_vms\<close>: one status query per id, a failure absorbed.\<close>

fun get_all_vms_loop :: "proxmox_api \<Rightarrow> int list \<Rightarrow> hv_call list \<times> vm_info list" where
  "get_all_vms_loop px [] = ([], [])"
| "get_all_vms_loop px (i # vm_ids) =
     (case ProxmoxClient_get_vm_status px i of
        (t, r) \<Rightarrow>
          (case get_all_vms_loop px vm_ids of
             (ts, vms) \<Rightarrow>
               (t @ ts,
                (case r of
                   Inr vm_status \<Rightarrow> vm_status
                 | Inl e \<Rightarrow>
                     \<lparr> vm_id = i, vm_name = ''VM-'' @ str_int i, status = ''unknown'',
                       uptime = None, cpu = None, memory = None, maxmem = None,
                       error = Some (str_exn e) \<rparr>) # vms)))"

definition ProxmoxClient_get_all_vms ::
  "proxmox_api \<Rightarrow> int list option \<Rightarrow> hv_call list \<times> vm_info list" where
  "ProxmoxClient_get_all_vms px vm_ids =
     get_all_vms_loop px (case vm_ids of None \<Rightarrow> default_vm_ids | Some ids \<Rightarrow> ids)"

text \<open>
  \<^verbatim>\<open>start_vm\<close>, \<^verbatim>\<open>stop_vm\<close> and \<^verbatim>\<open>shutdown_vm\<close> have one shape: read the status,
  return without a command when it equals the target, otherwise post the command. Every
  exception inside is re-raised with the method's prefix.
\<close>

definition ProxmoxClient_start_vm ::
  "proxmox_api \<Rightarrow> int \<Rightarrow> hv_call list \<times> (exn + vm_action)" where
  "ProxmoxClient_start_vm px i =
     (case ProxmoxClient_get_vm_status px i of
        (t, Inl e) \<Rightarrow> (t, Inl (Exception (''Failed to start VM: '' @ str_exn e)))
      | (t, Inr current_status) \<Rightarrow>
          if status current_status = ''running'' then
            (t, Inr \<lparr> act_success = False, act_message = ''VM is already running'',
                      act_vm_id = i, act_vm_name = vm_name current_status,
                      act_status = ''running'' \<rparr>)
          else
            (case status_start_post px i of
               Some e \<Rightarrow> (t @ [StartPost i], Inl (Exception (''Failed to start VM: '' @ e)))
             | None \<Rightarrow>
                 (t @ [StartPost i],
                  Inr \<lparr> act_success = True, act_message = ''VM start command sent successfully'',
                        act_vm_id = i, act_vm_name = vm_name current_status,
                        act_status = ''starting'' \<rparr>)))"

definition ProxmoxClient_stop_vm ::
  "proxmox_api \<Rightarrow> int \<Rightarrow> hv_call list \<times> (exn + vm_action)" where
  "ProxmoxClient_stop_vm px i =
     (case ProxmoxClient_get_vm_status px i of
        (t, Inl e) \<Rightarrow> (t, Inl (Exception (''Failed to stop VM: '' @ str_exn e)))
      | (t, Inr current_status) \<Rightarrow>
          if status current_status = ''stopped'' then
            (t, Inr \<lparr> act_success = False, act_message = ''VM is already stopped'',
                      act_vm_id = i, act_vm_name = vm_name current_status,
                      act_status = ''stopped'' \<rparr>)
          else
            (case status_stop_post px i of
               Some e \<Rightarrow> (t @ [StopPost i], Inl (Exception (''Failed to stop VM: '' @ e)))
             | None \<Rightarrow>
                 (t @ [StopPost i],
                  Inr \<lparr> act_success = True, act_message = ''VM stop command sent successfully'',
                        act_vm_id = i, act_vm_name = vm_name current_status,
                        act_status = ''stopping'' \<rparr>)))"

definition ProxmoxClient_shutdown_vm ::
  "proxmox_api \<Rightarrow> int \<Rightarrow> hv_call list \<times> (exn + vm_action)" where
  "ProxmoxClient_shutdown_vm px i =
     (case ProxmoxClient_get_vm_status px i of
        (t, Inl e) \<Rightarrow> (t, Inl (Exception (''Failed to shutdown VM: '' @ str_exn e)))
      | (t, Inr current_status) \<Rightarrow>
          if status current_status = ''stopped'' then
            (t, Inr \<lparr> act_success = False, act_message = ''VM is already stopped'',
                      act_vm_id = i, act_vm_name = vm_name current_status,
                      act_status = ''stopped'' \<rparr>)
          else
            (case status_shutdown_post px i of
               Some e \<Rightarrow> (t @ [ShutdownPost i], Inl (Exception (''Failed to shutdown VM: '' @ e)))
             | None \<Rightarrow>
                 (t @ [ShutdownPost i],
                  Inr \<lparr> act_success = True,
                        act_message = ''VM shutdown command sent successfully'',
                        act_vm_id = i, act_vm_name = vm_name current_status,
                        act_status = ''shutting_down'' \<rparr>)))"

section \<open>The relational store (app/models.py)\<close>

text \<open>
  The three tables. \<open>UserResponse\<close> has the columns of \<open>user\<close>, so a \<open>user\<close> value
  also stands for it. The column \<open>updated_at\<close> is never written by the modelled routes
  and is left out.
\<close>

record user =
  u_id :: string
  u_email :: string
  u_is_admin :: bool
  u_created_at :: nat

record vm_assignment =
  a_id :: nat
  a_user_id :: string
  a_vm_id :: int
  a_vm_name :: "string option"
  a_created_at :: nat

record audit_log =
  l_id :: nat
  l_user_id :: "string option"
  l_user_email :: string
  l_action :: string
  l_vm_id :: int
  l_vm_name :: "string option"
  l_success :: bool
  l_error_message :: "string option"
  l_ip_address :: "string option"
  l_timestamp :: nat

text \<open>
  The store: the rows of each table in insertion order, the two autoincrement
  counters, and the clock that \<^verbatim>\<open>func.now()\<close> reads.
\<close>

record db =
  users :: "user list"
  vm_assignments :: "vm_assignment list"
  audit_logs :: "audit_log list"
  vm_assignments_seq :: nat
  audit_logs_seq :: nat
  clock :: nat

text \<open>The declared constraints: the primary key and the two unique columns.\<close>

definition users_pkey :: "db \<Rightarrow> bool" where
  "users_pkey d = distinct (map u_id (users d))"

definition users_email_key :: "db \<Rightarrow> bool" where
  "users_email_key d = distinct (map u_email (users d))"

definition unique_user_vm_assignment :: "db \<Rightarrow> bool" where
  "unique_user_vm_assignment d = distinct (map a_user_id (vm_assignments d))"

text \<open>\<^verbatim>\<open>result.scalar_one_or_none()\<close>: more than one row raises.\<close>

fun scalar_one_or_none :: "'a list \<Rightarrow> exn + 'a option" where
  "scalar_one_or_none [] = Inr None"
| "scalar_one_or_none [x] = Inr (Some x)"
| "scalar_one_or_none (x # y # rows) = Inl MultipleResultsFound"

text \<open>
  \<^verbatim>\<open>db.add(User(...)); await db.commit(); await db.refresh(user)\<close>: the insert is
  refused when the primary key or the unique email is taken.
\<close>

definition add_user :: "db \<Rightarrow> string \<Rightarrow> string \<Rightarrow> bool \<Rightarrow> exn + db \<times> user" where
  "add_user d uid mail adm =
     (if uid \<in> set (map u_id (users d)) then Inl (IntegrityError ''users_pkey'')
      else if mail \<in> set (map u_email (users d)) then Inl (IntegrityError ''users_email_key'')
      else
        (let new_user = \<lparr> u_id = uid, u_email = mail, u_is_admin = adm,
                            u_created_at = clock d \<rparr>
         in Inr (d\<lparr> users := users d @ [new_user] \<rparr>, new_user)))"

text \<open>
  \<^verbatim>\<open>db.add(VMAssignment(...)); await db.commit(); await db.refresh(assignment)\<close>: the
  insert is refused when the user already has a row (\<open>unique_user_vm_assignment\<close>).
\<close>

definition add_vm_assignment ::
  "db \<Rightarrow> string \<Rightarrow> int \<Rightarrow> string option \<Rightarrow> exn + db \<times> vm_assignment" where
  "add_vm_assignment d uid vid vname =
     (if uid \<in> set (map a_user_id (vm_assignments d))
      then Inl (IntegrityError ''unique_user_vm_assignment'')
      else
        (let assignment = \<lparr> a_id = vm_assignments_seq d, a_user_id = uid, a_vm_id = vid,
                              a_vm_name = vname, a_created_at = clock d \<rparr>
         in Inr (d\<lparr> vm_assignments := vm_assignments d @ [assignment],
                     vm_assignments_seq := Suc (vm_assignments_seq d) \<rparr>, assignment)))"

text \<open>
  The session of a request, as far as \<^verbatim>\<open>start_vm\<close> uses it: the rows that
  \<^verbatim>\<open>db.add\<close> has made pending, and whether a failed flush has left the session's
  transaction inactive. The route never calls \<^verbatim>\<open>db.rollback()\<close>, so one session
  serves both commits of a request.
\<close>

record session =
  pending :: "audit_log list"
  inactive :: bool

text \<open>
  Whether the store accepts a commit is an input: \<open>None\<close> when it does. A commit that
  raises does so in one of two ways, and which one is the session library's and the
  store's affair, not the program's: \<open>Flush_failed m\<close>, the flush of the pending rows
  failed with message \<open>m\<close> and the transaction is inactive from then on;
  \<open>Not_flushed m\<close>, the commit raised with message \<open>m\<close> before the pending rows were
  sent, and they stay pending in a session that can still be used.
\<close>

datatype commit_fault = Flush_failed string | Not_flushed string

text \<open>One inserted audit row: the id and the timestamp are filled in by the store.\<close>

definition insert_audit_log :: "db \<Rightarrow> audit_log \<Rightarrow> db" where
  "insert_audit_log d row =
     d\<lparr> audit_logs := audit_logs d @
                       [row\<lparr> l_id := audit_logs_seq d, l_timestamp := clock d \<rparr>],
        audit_logs_seq := Suc (audit_logs_seq d) \<rparr>"

text \<open>
  \<^verbatim>\<open>await db.commit()\<close>. On an inactive session it raises \<open>PendingRollbackError\<close>
  whatever the store would answer. An accepted commit stores every pending row, in the
  order they were added.
\<close>

definition session_commit ::
  "commit_fault option \<Rightarrow> db \<Rightarrow> session \<Rightarrow> (exn + db) \<times> session" where
  "session_commit fault d s =
     (if inactive s then (Inl PendingRollbackError, s)
      else
        (case fault of
           Some (Flush_failed m) \<Rightarrow> (Inl (OperationalError m), s\<lparr> inactive := True \<rparr>)
         | Some (Not_flushed m) \<Rightarrow> (Inl (OperationalError m), s)
         | None \<Rightarrow> (Inr (foldl insert_audit_log d (pending s)), s\<lparr> pending := [] \<rparr>)))"

text \<open>\<^verbatim>\<open>db.add(audit_log)\<close>.\<close>

definition session_add :: "session \<Rightarrow> audit_log \<Rightarrow> session" where
  "session_add s row = s\<lparr> pending := pending s @ [row] \<rparr>"

text \<open>
  \<^verbatim>\<open>await db.delete(user); await db.commit()\<close>: the user's assignments go with the
  user (\<^verbatim>\<open>cascade="all, delete-orphan"\<close>, \<^verbatim>\<open>ondelete="CASCADE"\<close>), and the audit rows
  that point to the user keep everything but the pointer (\<^verbatim>\<open>ondelete="SET NULL"\<close>).
\<close>

definition db_delete_user :: "db \<Rightarrow> user \<Rightarrow> db" where
  "db_delete_user d usr =
     d\<lparr> users := filter (\<lambda>u. u_id u \<noteq> u_id usr) (users d),
        vm_assignments := filter (\<lambda>a. a_user_id a \<noteq> u_id usr) (vm_assignments d),
        audit_logs := map (\<lambda>l. if l_user_id l = Some (u_id usr)
                                  then l\<lparr> l_user_id := None \<rparr> else l) (audit_logs d) \<rparr>"

text \<open>The Assignment Store lookup \<^verbatim>\<open>select(VMAssignment).where(user_id == ...)\<close>.\<close>

definition assignments_of :: "db \<Rightarrow> string \<Rightarrow> vm_assignment list" where
  "assignments_of d uid = filter (\<lambda>a. a_user_id a = uid) (vm_assignments d)"

section \<open>The VM routes (app/routers/vms.py)\<close>

record vm_response =
  r_vm_id :: int
  r_vm_name :: string
  r_status :: string
  r_uptime :: "int option"
  r_assigned_user :: "string option"
  r_can_control :: bool

record vm_list_response =
  vms :: "vm_response list"
  total :: nat

text \<open>
  The permission check that opens both \<^verbatim>\<open>get_vm_status\<close> and \<^verbatim>\<open>start_vm\<close>, word
  for word the same in the two routes.
\<close>

definition check_permissions :: "db \<Rightarrow> user \<Rightarrow> int \<Rightarrow> exn + unit" where
  "check_permissions d current_user i =
     (if \<not> u_is_admin current_user then
        (case scalar_one_or_none
                (filter (\<lambda>a. a_user_id a = u_id current_user \<and> a_vm_id a = i)
                   (vm_assignments d)) of
           Inl e \<Rightarrow> Inl e
         | Inr None \<Rightarrow>
             Inl (HTTPException 403 (''You don'' @ [CHR 0x27] @ ''t have access to this VM''))
         | Inr (Some assignment) \<Rightarrow> Inr ())
      else Inr ())"

definition vms_get_vm_status ::
  "proxmox_api \<Rightarrow> db \<Rightarrow> user \<Rightarrow> int \<Rightarrow> hv_call list \<times> (exn + vm_response)" where
  "vms_get_vm_status px d current_user i =
     (case check_permissions d current_user i of
        Inl e \<Rightarrow> ([], Inl e)
      | Inr ok \<Rightarrow>
          (case ProxmoxClient_get_vm_status px i of
             (t, Inl e) \<Rightarrow>
               (t, Inl (HTTPException 500 (''Failed to get VM status: '' @ str_exn e)))
           | (t, Inr vm_status) \<Rightarrow>
               (t, Inr \<lparr> r_vm_id = vm_id vm_status, r_vm_name = vm_name vm_status,
                         r_status = status vm_status, r_uptime = uptime vm_status,
                         r_assigned_user =
                           (if \<not> u_is_admin current_user then Some (u_email current_user)
                            else None),
                         r_can_control = True \<rparr>)))"

text \<open>
  The \<^verbatim>\<open>except Exception\<close> branch of \<^verbatim>\<open>start_vm\<close>: a failure row is added
  to the session the \<^verbatim>\<open>try\<close> block has left, then the commit, then 500. An exception
  of this commit is not caught by anything.
\<close>

definition start_vm_except ::
  "commit_fault option \<Rightarrow> db \<Rightarrow> session \<Rightarrow> user \<Rightarrow> string option \<Rightarrow> int \<Rightarrow> exn
     \<Rightarrow> db \<times> (exn + vm_action)" where
  "start_vm_except fault d s current_user client_host i e =
     (case session_commit fault d
             (session_add s
                \<lparr> l_id = 0, l_user_id = Some (u_id current_user),
                  l_user_email = u_email current_user, l_action = ''start'', l_vm_id = i,
                  l_vm_name = Some (''VM-'' @ str_int i), l_success = False,
                  l_error_message = Some (str_exn e), l_ip_address = client_host,
                  l_timestamp = 0 \<rparr>) of
        (Inl e2, s2) \<Rightarrow> (d, Inl e2)
      | (Inr d2, s2) \<Rightarrow> (d2, Inl (HTTPException 500 (''Failed to start VM: '' @ str_exn e))))"

text \<open>
  \<^verbatim>\<open>start_vm\<close>. \<open>fault1\<close> is the store's answer to the first commit of the request,
  \<open>fault2\<close> its answer to a second one. \<open>client_host\<close> is \<^verbatim>\<open>request.client.host\<close>, or
  \<open>None\<close> without \<^verbatim>\<open>request.client\<close>. The result is the store afterwards, the calls
  made to the hypervisor, and the response or the exception. When the first commit
  raises inside the \<^verbatim>\<open>try\<close> block, the \<^verbatim>\<open>except\<close> branch goes on with the same
  session: inactive after a failed flush, or with the first row still pending.
\<close>

definition vms_start_vm ::
  "proxmox_api \<Rightarrow> commit_fault option \<Rightarrow> commit_fault option \<Rightarrow> db \<Rightarrow> user
     \<Rightarrow> string option \<Rightarrow> int \<Rightarrow> db \<times> hv_call list \<times> (exn + vm_action)" where
  "vms_start_vm px fault1 fault2 d current_user client_host i =
     (case check_permissions d current_user i of
        Inl e \<Rightarrow> (d, [], Inl e)
      | Inr ok \<Rightarrow>
          (case ProxmoxClient_start_vm px i of
             (t, Inr result) \<Rightarrow>
               (case session_commit fault1 d
                       (session_add \<lparr> pending = [], inactive = False \<rparr>
                          \<lparr> l_id = 0, l_user_id = Some (u_id current_user),
                            l_user_email = u_email current_user, l_action = ''start'',
                            l_vm_id = i, l_vm_name = Some (act_vm_name result),
                            l_success = act_success result,
                            l_error_message =
                              (if act_success result then None
                               else Some (act_message result)),
                            l_ip_address = client_host, l_timestamp = 0 \<rparr>) of
                  (Inr d1, s1) \<Rightarrow> (d1, t, Inr result)
                | (Inl e, s1) \<Rightarrow>
                    (case start_vm_except fault2 d s1 current_user client_host i e of
                       (d2, r) \<Rightarrow> (d2, t, r)))
           | (t, Inl e) \<Rightarrow>
               (case start_vm_except fault1 d \<lparr> pending = [], inactive = False \<rparr>
                       current_user client_host i e of
                  (d2, r) \<Rightarrow> (d2, t, r))))"

text \<open>
  The admin branch of \<^verbatim>\<open>list_vms\<close>: \<open>assignment_map\<close> keeps the last row of each
  \<open>vm_id\<close>, and the owner's email is looked up per VM.
\<close>

fun list_vms_admin :: "db \<Rightarrow> vm_info list \<Rightarrow> exn + vm_response list" where
  "list_vms_admin d [] = Inr []"
| "list_vms_admin d (vm # all_vms) =
     (case (case map_of (rev (map (\<lambda>a. (a_vm_id a, a)) (vm_assignments d))) (vm_id vm) of
              None \<Rightarrow> Inr None
            | Some assignment \<Rightarrow>
                (case scalar_one_or_none
                        (filter (\<lambda>u. u_id u = a_user_id assignment) (users d)) of
                   Inl e \<Rightarrow> Inl e
                 | Inr None \<Rightarrow> Inr None
                 | Inr (Some assigned_user) \<Rightarrow> Inr (Some (u_email assigned_user)))) of
        Inl e \<Rightarrow> Inl e
      | Inr assigned_user_email \<Rightarrow>
          (case list_vms_admin d all_vms of
             Inl e \<Rightarrow> Inl e
           | Inr vm_responses \<Rightarrow>
               Inr (\<lparr> r_vm_id = vm_id vm, r_vm_name = vm_name vm, r_status = status vm,
                       r_uptime = uptime vm, r_assigned_user = assigned_user_email,
                       r_can_control = True \<rparr> # vm_responses)))"

text \<open>The body of the \<^verbatim>\<open>try\<close> of \<^verbatim>\<open>list_vms\<close>, after the hypervisor listing.\<close>

definition list_vms_try :: "db \<Rightarrow> user \<Rightarrow> vm_info list \<Rightarrow> exn + vm_list_response" where
  "list_vms_try d current_user all_vms =
     (if u_is_admin current_user then
        (case list_vms_admin d all_vms of
           Inl e \<Rightarrow> Inl e
         | Inr vm_responses \<Rightarrow> Inr \<lparr> vms = vm_responses, total = length vm_responses \<rparr>)
      else
        (case scalar_one_or_none (assignments_of d (u_id current_user)) of
           Inl e \<Rightarrow> Inl e
         | Inr None \<Rightarrow> Inr \<lparr> vms = [], total = 0 \<rparr>
         | Inr (Some assignment) \<Rightarrow>
             (case find (\<lambda>vm. vm_id vm = a_vm_id assignment) all_vms of
                None \<Rightarrow>
                  Inl (HTTPException 404
                         (''Assigned VM '' @ str_int (a_vm_id assignment) @
                          '' not found in Proxmox''))
              | Some user_vm \<Rightarrow>
                  Inr \<lparr> vms = [\<lparr> r_vm_id = vm_id user_vm, r_vm_name = vm_name user_vm,
                                  r_status = status user_vm, r_uptime = uptime user_vm,
                                  r_assigned_user = Some (u_email current_user),
                                  r_can_control = True \<rparr>],
                        total = 1 \<rparr>)))"

text \<open>
  \<^verbatim>\<open>list_vms\<close>: the listing is always the default id set, and every exception of the
  body, the 404 included, is re-raised as a 500 by the \<^verbatim>\<open>except Exception\<close>.
\<close>

definition vms_list_vms ::
  "proxmox_api \<Rightarrow> db \<Rightarrow> user \<Rightarrow> hv_call list \<times> (exn + vm_list_response)" where
  "vms_list_vms px d current_user =
     (case ProxmoxClient_get_all_vms px None of
        (t, all_vms) \<Rightarrow>
          (t, case list_vms_try d current_user all_vms of
                Inl e \<Rightarrow> Inl (HTTPException 500 (''Failed to fetch VMs: '' @ str_exn e))
              | Inr r \<Rightarrow> Inr r))"

section \<open>The admin routes (app/routers/admin.py)\<close>

text \<open>The dependency that gates every admin route.\<close>

definition get_current_admin_user :: "user \<Rightarrow> exn + user" where
  "get_current_admin_user current_user =
     (if \<not> u_is_admin current_user
      then Inl (HTTPException 403 ''Admin privileges required'')
      else Inr current_user)"

text \<open>\<^verbatim>\<open>delete_user\<close>: 404 without the row, otherwise the delete and a message.\<close>

definition admin_delete_user :: "db \<Rightarrow> string \<Rightarrow> db \<times> (exn + string)" where
  "admin_delete_user d user_id =
     (case scalar_one_or_none (filter (\<lambda>u. u_id u = user_id) (users d)) of
        Inl e \<Rightarrow> (d, Inl e)
      | Inr None \<Rightarrow> (d, Inl (HTTPException 404 ''User not found''))
      | Inr (Some usr) \<Rightarrow>
          (db_delete_user d usr, Inr (''User '' @ u_email usr @ '' deleted successfully'')))"

record vm_assignment_response =
  var_id :: nat
  var_user_id :: string
  var_vm_id :: int
  var_vm_name :: "string option"
  var_created_at :: nat
  var_user :: user

text \<open>
  \<^verbatim>\<open>assign_vm_to_user\<close>: the user must exist, must have no assignment yet, and the
  hypervisor must answer the status query for the VM; the name it reports is stored
  with the row.
\<close>

definition admin_assign_vm_to_user ::
  "proxmox_api \<Rightarrow> db \<Rightarrow> string \<Rightarrow> int
     \<Rightarrow> db \<times> hv_call list \<times> (exn + vm_assignment_response)" where
  "admin_assign_vm_to_user px d user_id vid =
     (case scalar_one_or_none (filter (\<lambda>u. u_id u = user_id) (users d)) of
        Inl e \<Rightarrow> (d, [], Inl e)
      | Inr None \<Rightarrow> (d, [], Inl (HTTPException 404 ''User not found''))
      | Inr (Some usr) \<Rightarrow>
          (case scalar_one_or_none (assignments_of d user_id) of
             Inl e \<Rightarrow> (d, [], Inl e)
           | Inr (Some existing_assignment) \<Rightarrow>
               (d, [], Inl (HTTPException 400
                              (''User already has VM '' @
                               str_int (a_vm_id existing_assignment) @ '' assigned'')))
           | Inr None \<Rightarrow>
               (case ProxmoxClient_get_vm_status px vid of
                  (t, Inl e) \<Rightarrow>
                    (d, t, Inl (HTTPException 404
                                  (''VM '' @ str_int vid @ '' not found in Proxmox: '' @
                                   str_exn e)))
                | (t, Inr vm_status) \<Rightarrow>
                    (case add_vm_assignment d user_id vid (Some (vm_name vm_status)) of
                       Inl e \<Rightarrow> (d, t, Inl e)
                     | Inr (d2, assignment) \<Rightarrow>
                         (d2, t,
                          Inr \<lparr> var_id = a_id assignment,
                                var_user_id = a_user_id assignment,
                                var_vm_id = a_vm_id assignment,
                                var_vm_name = a_vm_name assignment,
                                var_created_at = a_created_at assignment,
                                var_user = usr \<rparr>)))))"

section \<open>Login and bearer tokens (app/auth.py, app/routers/auth.py)\<close>

text \<open>
  What the HTTP client gives back for a request to the auth provider: a transport
  failure (\<^verbatim>\<open>httpx.RequestError\<close>) or a response with its status code and JSON body.
\<close>

datatype 'a http_reply = RequestError string | Response nat 'a

record gotrue_user =
  gu_id :: "string option"
  gu_email :: "string option"

text \<open>The JSON body of the provider's token endpoint; every key may be absent.\<close>

record auth_response =
  ar_access_token :: "string option"
  ar_expires_in :: "int option"
  ar_user :: "gotrue_user option"

text \<open>\<^verbatim>\<open>GoTrueClient.login\<close>; \<open>post_token\<close> is the provider's password-grant endpoint.\<close>

definition GoTrueClient_login ::
  "(string \<Rightarrow> string \<Rightarrow> auth_response http_reply) \<Rightarrow> string \<Rightarrow> string \<Rightarrow> exn + auth_response"
  where
  "GoTrueClient_login post_token mail password =
     (case post_token mail password of
        RequestError e \<Rightarrow> Inl (HTTPException 503 ''Authentication service unavailable'')
      | Response code body \<Rightarrow>
          if code \<noteq> 200 then Inl (HTTPException 401 ''Invalid credentials'')
          else Inr body)"

record token_response =
  tr_access_token :: string
  tr_token_type :: string
  tr_expires_in :: int
  tr_user :: user

text \<open>
  The route \<^verbatim>\<open>login\<close>. The credentials have passed the request schema. The local user
  is fetched by the provider's id or inserted with \<open>is_admin = False\<close>; the token is
  read from the provider's answer only after that.
\<close>

definition auth_login ::
  "(string \<Rightarrow> string \<Rightarrow> auth_response http_reply) \<Rightarrow> db \<Rightarrow> string \<Rightarrow> string
     \<Rightarrow> db \<times> (exn + token_response)" where
  "auth_login post_token d mail password =
     (case GoTrueClient_login post_token mail password of
        Inl e \<Rightarrow> (d, Inl e)
      | Inr auth_response \<Rightarrow>
          (let user_id = (case ar_user auth_response of None \<Rightarrow> None | Some g \<Rightarrow> gu_id g);
               user_email = (case ar_user auth_response of None \<Rightarrow> None | Some g \<Rightarrow> gu_email g)
           in
             if falsy user_id \<or> falsy user_email then
               (d, Inl (HTTPException 500 ''Invalid authentication response''))
             else
               (case (case scalar_one_or_none
                             (filter (\<lambda>u. u_id u = dict_get user_id []) (users d)) of
                        Inl e \<Rightarrow> Inl e
                      | Inr (Some usr) \<Rightarrow> Inr (d, usr)
                      | Inr None \<Rightarrow>
                          add_user d (dict_get user_id []) (dict_get user_email []) False) of
                  Inl e \<Rightarrow> (d, Inl e)
                | Inr (d2, usr) \<Rightarrow>
                    (case ar_access_token auth_response of
                       None \<Rightarrow> (d2, Inl (KeyError ''access_token''))
                     | Some tok \<Rightarrow>
                         (d2, Inr \<lparr> tr_access_token = tok, tr_token_type = ''bearer'',
                                    tr_expires_in = dict_get (ar_expires_in auth_response) 3600,
                                    tr_user = usr \<rparr>)))))"

text \<open>
  The outcome of \<^verbatim>\<open>jwt.decode\<close> with the shared secret: one of the two exceptions the
  code catches, or the payload with its \<open>sub\<close> and \<open>email\<close> claims, each possibly absent.
\<close>

datatype jwt_result = ExpiredSignatureError | InvalidTokenError | Payload "string option" "string option"

definition verify_token :: "(string \<Rightarrow> jwt_result) \<Rightarrow> string \<Rightarrow> exn + string option \<times> string option"
  where
  "verify_token jwt_decode token =
     (case jwt_decode token of
        ExpiredSignatureError \<Rightarrow> Inl (HTTPException 401 ''Token has expired'')
      | InvalidTokenError \<Rightarrow> Inl (HTTPException 401 ''Invalid token'')
      | Payload sub mail \<Rightarrow> Inr (sub, mail))"

text \<open>
  \<^verbatim>\<open>get_current_user\<close>, with the store threaded through so that what it leaves
  behind can be stated.
\<close>

definition get_current_user :: "(string \<Rightarrow> jwt_result) \<Rightarrow> db \<Rightarrow> string \<Rightarrow> db \<times> (exn + user)" where
  "get_current_user jwt_decode d token =
     (case verify_token jwt_decode token of
        Inl e \<Rightarrow> (d, Inl e)
      | Inr (user_id, user_email) \<Rightarrow>
          if falsy user_id \<or> falsy user_email then
            (d, Inl (HTTPException 401 ''Invalid token payload''))
          else
            (case scalar_one_or_none
                    (filter (\<lambda>u. u_id u = dict_get user_id []) (users d)) of
               Inl e \<Rightarrow> (d, Inl e)
             | Inr None \<Rightarrow> (d, Inl (HTTPException 404 ''User not found in database''))
             | Inr (Some usr) \<Rightarrow> (d, Inr usr)))"

section \<open>Sample data\<close>

text \<open>
  A hypervisor with four answering VMs in different states, one of them (104) with
  an empty status dictionary, one id (101) that times out, and no other id.
\<close>

definition sample_cfg :: "string \<Rightarrow> string \<Rightarrow> vm_config" where
  "sample_cfg n s =
     \<lparr> cfg_name = Some n, cfg_status = Some s, cfg_uptime = Some 0, cfg_cpu = None,
       cfg_mem = None, cfg_maxmem = None \<rparr>"

definition sample_px :: proxmox_api where
  "sample_px =
     \<lparr> status_current_get =
         (\<lambda>i. if i = 106 then Inr (sample_cfg ''ws-106'' ''running'')
              else if i = 103 then Inr (sample_cfg ''ws-103'' ''stopped'')
              else if i = 101 then Inl ''timed out''
              else if i = 102 then Inr (sample_cfg ''ws-102'' ''paused'')
              else if i = 104 then
                Inr \<lparr> cfg_name = None, cfg_status = None, cfg_uptime = None, cfg_cpu = None,
                      cfg_mem = None, cfg_maxmem = None \<rparr>
              else Inl ''no such VM''),
       status_start_post = (\<lambda>i. None),
       status_stop_post = (\<lambda>i. None),
       status_shutdown_post = (\<lambda>i. None) \<rparr>"

text \<open>
  A store with an admin, a user assigned to VM 103, a user without assignment and a
  user assigned to VM 999, which the hypervisor listing does not have.
\<close>

definition root_user :: user where
  "root_user = \<lparr> u_id = ''u-root'', u_email = ''root@example.com'', u_is_admin = True,
                 u_created_at = 1 \<rparr>"

definition alice :: user where
  "alice = \<lparr> u_id = ''u-alice'', u_email = ''alice@example.com'', u_is_admin = False,
             u_created_at = 2 \<rparr>"

definition bob :: user where
  "bob = \<lparr> u_id = ''u-bob'', u_email = ''bob@example.com'', u_is_admin = False,
           u_created_at = 3 \<rparr>"

definition carol :: user where
  "carol = \<lparr> u_id = ''u-carol'', u_email = ''carol@example.com'', u_is_admin = False,
             u_created_at = 4 \<rparr>"

definition alice_assignment :: vm_assignment where
  "alice_assignment = \<lparr> a_id = 1, a_user_id = ''u-alice'', a_vm_id = 103,
                        a_vm_name = Some ''ws-103'', a_created_at = 5 \<rparr>"

definition carol_assignment :: vm_assignment where
  "carol_assignment = \<lparr> a_id = 2, a_user_id = ''u-carol'', a_vm_id = 999,
                        a_vm_name = Some ''ws-999'', a_created_at = 6 \<rparr>"

definition alice_log :: audit_log where
  "alice_log = \<lparr> l_id = 1, l_user_id = Some ''u-alice'', l_user_email = ''alice@example.com'',
                 l_action = ''start'', l_vm_id = 103, l_vm_name = Some ''ws-103'',
                 l_success = True, l_error_message = None, l_ip_address = Some ''10.0.0.7'',
                 l_timestamp = 7 \<rparr>"

definition root_log :: audit_log where
  "root_log = \<lparr> l_id = 2, l_user_id = Some ''u-root'', l_user_email = ''root@example.com'',
                l_action = ''start'', l_vm_id = 106, l_vm_name = Some ''ws-106'',
                l_success = False, l_error_message = Some ''VM is already running'',
                l_ip_address = None, l_timestamp = 8 \<rparr>"

definition sample_db :: db where
  "sample_db = \<lparr> users = [root_user, alice, bob, carol],
                 vm_assignments = [alice_assignment, carol_assignment],
                 audit_logs = [alice_log, root_log],
                 vm_assignments_seq = 3, audit_logs_seq = 3, clock = 9 \<rparr>"

text \<open>
  An auth provider that is unreachable for one address, rejects every wrong password,
  knows \<open>alice\<close> (who has a local row) and \<open>dave\<close> (who has none), answers 200 without a
  user id for \<open>ghost\<close>, and knows a second account with the email of \<open>carol\<close>.
\<close>

definition sample_post_token :: "string \<Rightarrow> string \<Rightarrow> auth_response http_reply" where
  "sample_post_token mail password =
     (if mail = ''down@example.com'' then RequestError ''connection refused''
      else if password \<noteq> ''correct horse'' then
        Response 400 \<lparr> ar_access_token = None, ar_expires_in = None, ar_user = None \<rparr>
      else if mail = ''alice@example.com'' then
        Response 200 \<lparr> ar_access_token = Some ''tok-alice'', ar_expires_in = Some 900,
                       ar_user = Some \<lparr> gu_id = Some ''u-alice'',
                                        gu_email = Some ''alice@example.com'' \<rparr> \<rparr>
      else if mail = ''dave@example.com'' then
        Response 200 \<lparr> ar_access_token = Some ''tok-dave'', ar_expires_in = None,
                       ar_user = Some \<lparr> gu_id = Some ''u-dave'',
                                        gu_email = Some ''dave@example.com'' \<rparr> \<rparr>
      else if mail = ''ghost@example.com'' then
        Response 200 \<lparr> ar_access_token = Some ''tok-ghost'', ar_expires_in = None,
                       ar_user = Some \<lparr> gu_id = None,
                                        gu_email = Some ''ghost@example.com'' \<rparr> \<rparr>
      else if mail = ''carol@example.com'' then
        Response 200 \<lparr> ar_access_token = Some ''tok-carol'', ar_expires_in = None,
                       ar_user = Some \<lparr> gu_id = Some ''u-carol-2'',
                                        gu_email = Some ''carol@example.com'' \<rparr> \<rparr>
      else Response 400 \<lparr> ar_access_token = None, ar_expires_in = None, ar_user = None \<rparr>)"

definition sample_jwt_decode :: "string \<Rightarrow> jwt_result" where
  "sample_jwt_decode token =
     (if token = ''tok-alice'' then Payload (Some ''u-alice'') (Some ''alice@example.com'')
      else if token = ''tok-dave'' then Payload (Some ''u-dave'') (Some ''dave@example.com'')
      else if token = ''tok-old'' then ExpiredSignatureError
      else InvalidTokenError)"

lemmas sample_defs =
  sample_px_def sample_cfg_def sample_db_def root_user_def alice_def bob_def carol_def
  alice_assignment_def carol_assignment_def alice_log_def root_log_def

section \<open>Properties of the hypervisor adapter\<close>

lemma str_int_101: "str_int 101 = ''101''"
  by code_simp

lemma str_int_104: "str_int 104 = ''104''"
  by code_simp

lemma get_vm_status_trace: "fst (ProxmoxClient_get_vm_status px i) = [CurrentGet i]"
  by (simp add: ProxmoxClient_get_vm_status_def)

lemma loop_trace: "fst (get_all_vms_loop px ids) = map CurrentGet ids"
  by (induction ids) (auto simp: get_vm_status_trace split: prod.splits dest: arg_cong[where f=fst])

lemma loop_length: "length (snd (get_all_vms_loop px ids)) = length ids"
  by (induction ids) (auto split: prod.splits)

lemma loop_nth:
  "k < length ids \<Longrightarrow>
   snd (get_all_vms_loop px ids) ! k =
     (case snd (ProxmoxClient_get_vm_status px (ids ! k)) of
        Inr vm_status \<Rightarrow> vm_status
      | Inl e \<Rightarrow> \<lparr> vm_id = ids ! k, vm_name = ''VM-'' @ str_int (ids ! k), status = ''unknown'',
                   uptime = None, cpu = None, memory = None, maxmem = None,
                   error = Some (str_exn e) \<rparr>)"
proof (induction ids arbitrary: k)
  case Nil
  then show ?case by simp
next
  case (Cons i ids)
  show ?case
  proof (cases k)
    case 0
    then show ?thesis by (auto split: prod.splits sum.splits)
  next
    case (Suc j)
    with Cons.prems have "j < length ids" by simp
    from Cons.IH[OF this] Suc show ?thesis by (auto split: prod.splits sum.splits)
  qed
qed

lemma loop_vm_id: "map vm_id (snd (get_all_vms_loop px ids)) = ids"
  by (induction ids)
     (auto simp: ProxmoxClient_get_vm_status_def split: prod.splits sum.splits)

text \<open>
  Claim C7. The batch listing queries every requested id on its own, in order, the
  default set standing in when none is given. Its result has exactly one entry per
  requested id, in the same order. A VM whose query returns is reported as the status
  query reports it; a VM whose query raises is reported with status \<open>unknown\<close> and the
  error string, and has no influence on the entries of the other VMs.
\<close>

theorem get_all_vms_entry_per_id:
  "ProxmoxClient_get_all_vms px None = ProxmoxClient_get_all_vms px (Some default_vm_ids)
   \<and> fst (ProxmoxClient_get_all_vms px (Some ids)) = map CurrentGet ids
   \<and> length (snd (ProxmoxClient_get_all_vms px (Some ids))) = length ids
   \<and> map vm_id (snd (ProxmoxClient_get_all_vms px (Some ids))) = ids
   \<and> (\<forall>k < length ids.
         (case status_current_get px (ids ! k) of
            Inr c \<Rightarrow>
              ProxmoxClient_get_vm_status px (ids ! k) =
                ([CurrentGet (ids ! k)], Inr (snd (ProxmoxClient_get_all_vms px (Some ids)) ! k))
              \<and> error (snd (ProxmoxClient_get_all_vms px (Some ids)) ! k) = None
          | Inl m \<Rightarrow>
              snd (ProxmoxClient_get_all_vms px (Some ids)) ! k =
                \<lparr> vm_id = ids ! k, vm_name = ''VM-'' @ str_int (ids ! k),
                  status = ''unknown'', uptime = None, cpu = None, memory = None,
                  maxmem = None, error = Some (''Failed to get VM status: '' @ m) \<rparr>))"
proof -
  have o: "ProxmoxClient_get_all_vms px (Some ids) = get_all_vms_loop px ids"
    by (simp add: ProxmoxClient_get_all_vms_def)
  have d: "ProxmoxClient_get_all_vms px None = ProxmoxClient_get_all_vms px (Some default_vm_ids)"
    by (simp add: ProxmoxClient_get_all_vms_def)
  have n: "(case status_current_get px (ids ! k) of
            Inr c \<Rightarrow>
              ProxmoxClient_get_vm_status px (ids ! k) =
                ([CurrentGet (ids ! k)], Inr (snd (get_all_vms_loop px ids) ! k))
              \<and> error (snd (get_all_vms_loop px ids) ! k) = None
          | Inl m \<Rightarrow>
              snd (get_all_vms_loop px ids) ! k =
                \<lparr> vm_id = ids ! k, vm_name = ''VM-'' @ str_int (ids ! k),
                  status = ''unknown'', uptime = None, cpu = None, memory = None,
                  maxmem = None, error = Some (''Failed to get VM status: '' @ m) \<rparr>)"
    if "k < length ids" for k
    using loop_nth[OF that, of px]
    by (simp add: ProxmoxClient_get_vm_status_def split: sum.splits)
  show ?thesis
    unfolding o using d n by (simp add: loop_trace loop_length loop_vm_id)
qed


theorem get_all_vms_entry_per_id_witness:
  "(2::nat) < length default_vm_ids
   \<and> length (snd (ProxmoxClient_get_all_vms sample_px None)) = 4
   \<and> map vm_id (snd (ProxmoxClient_get_all_vms sample_px None)) = [106, 103, 101, 102]
   \<and> snd (ProxmoxClient_get_all_vms sample_px None) ! 2 =
        \<lparr> vm_id = 101, vm_name = ''VM-101'', status = ''unknown'', uptime = None,
          cpu = None, memory = None, maxmem = None,
          error = Some ''Failed to get VM status: timed out'' \<rparr>"
proof -
  have k: "(2::nat) < length default_vm_ids"
    by (simp add: default_vm_ids_def)
  have e: "status_current_get sample_px (default_vm_ids ! 2) = Inl ''timed out''"
    by (simp add: default_vm_ids_def sample_px_def)
  note t = get_all_vms_entry_per_id[of sample_px default_vm_ids]
  from t have a: "ProxmoxClient_get_all_vms sample_px None =
                  ProxmoxClient_get_all_vms sample_px (Some default_vm_ids)"
    by blast
  from t have l: "length (snd (ProxmoxClient_get_all_vms sample_px (Some default_vm_ids))) = 4"
    by (simp add: default_vm_ids_def)
  from t have m: "map vm_id (snd (ProxmoxClient_get_all_vms sample_px (Some default_vm_ids)))
                    = [106, 103, 101, 102]"
    by (simp add: default_vm_ids_def)
  from t k have "(case status_current_get sample_px (default_vm_ids ! 2) of
            Inr c \<Rightarrow>
              ProxmoxClient_get_vm_status sample_px (default_vm_ids ! 2) =
                ([CurrentGet (default_vm_ids ! 2)],
                 Inr (snd (ProxmoxClient_get_all_vms sample_px (Some default_vm_ids)) ! 2))
              \<and> error (snd (ProxmoxClient_get_all_vms sample_px (Some default_vm_ids)) ! 2) = None
          | Inl m \<Rightarrow>
              snd (ProxmoxClient_get_all_vms sample_px (Some default_vm_ids)) ! 2 =
                \<lparr> vm_id = default_vm_ids ! 2, vm_name = ''VM-'' @ str_int (default_vm_ids ! 2),
                  status = ''unknown'', uptime = None, cpu = None, memory = None,
                  maxmem = None, error = Some (''Failed to get VM status: '' @ m) \<rparr>)"
    by blast
  with e have "snd (ProxmoxClient_get_all_vms sample_px (Some default_vm_ids)) ! 2 =
        \<lparr> vm_id = 101, vm_name = ''VM-101'', status = ''unknown'', uptime = None,
          cpu = None, memory = None, maxmem = None,
          error = Some ''Failed to get VM status: timed out'' \<rparr>"
    by (simp add: default_vm_ids_def str_int_101)
  with k a l m show ?thesis by simp
qed

text \<open>
  Claim C3. Let the status read of a VM return. Start on a VM that is \<open>running\<close>, and
  stop or shutdown on a VM that is \<open>stopped\<close>, return (they do not raise) an outcome with
  \<open>success = False\<close>, the explanatory message and the VM's current status, and send no
  command. In every other status the command is posted and, the hypervisor accepting
  it, the outcome is \<open>success = True\<close> with the label \<open>starting\<close>, \<open>stopping\<close> or
  \<open>shutting_down\<close>; the post is the last call made, so the transition is not awaited.
\<close>

theorem adapter_noop_or_command:
  assumes "snd (ProxmoxClient_get_vm_status px i) = Inr cur"
  shows "(status cur = ''running'' \<longrightarrow>
            ProxmoxClient_start_vm px i =
              ([CurrentGet i],
               Inr \<lparr> act_success = False, act_message = ''VM is already running'',
                     act_vm_id = i, act_vm_name = vm_name cur, act_status = status cur \<rparr>))
       \<and> (status cur \<noteq> ''running'' \<and> status_start_post px i = None \<longrightarrow>
            ProxmoxClient_start_vm px i =
              ([CurrentGet i, StartPost i],
               Inr \<lparr> act_success = True, act_message = ''VM start command sent successfully'',
                     act_vm_id = i, act_vm_name = vm_name cur, act_status = ''starting'' \<rparr>))
       \<and> (status cur = ''stopped'' \<longrightarrow>
            ProxmoxClient_stop_vm px i =
              ([CurrentGet i],
               Inr \<lparr> act_success = False, act_message = ''VM is already stopped'',
                     act_vm_id = i, act_vm_name = vm_name cur, act_status = status cur \<rparr>)
          \<and> ProxmoxClient_shutdown_vm px i =
              ([CurrentGet i],
               Inr \<lparr> act_success = False, act_message = ''VM is already stopped'',
                     act_vm_id = i, act_vm_name = vm_name cur, act_status = status cur \<rparr>))
       \<and> (status cur \<noteq> ''stopped'' \<and> status_stop_post px i = None \<longrightarrow>
            ProxmoxClient_stop_vm px i =
              ([CurrentGet i, StopPost i],
               Inr \<lparr> act_success = True, act_message = ''VM stop command sent successfully'',
                     act_vm_id = i, act_vm_name = vm_name cur, act_status = ''stopping'' \<rparr>))
       \<and> (status cur \<noteq> ''stopped'' \<and> status_shutdown_post px i = None \<longrightarrow>
            ProxmoxClient_shutdown_vm px i =
              ([CurrentGet i, ShutdownPost i],
               Inr \<lparr> act_success = True,
                     act_message = ''VM shutdown command sent successfully'',
                     act_vm_id = i, act_vm_name = vm_name cur,
                     act_status = ''shutting_down'' \<rparr>))"
proof -
  from assms have g: "ProxmoxClient_get_vm_status px i = ([CurrentGet i], Inr cur)"
    using get_vm_status_trace[of px i] by (cases "ProxmoxClient_get_vm_status px i") simp
  show ?thesis
    by (simp add: ProxmoxClient_start_vm_def ProxmoxClient_stop_vm_def
          ProxmoxClient_shutdown_vm_def g)
qed

text \<open>
  Claim C10. The command is withheld exactly when the status string equals the one
  target state: \<open>running\<close> for start, \<open>stopped\<close> for stop and shutdown. For every other
  status, \<open>paused\<close> and \<open>unknown\<close> among them, the command is posted, and with the
  hypervisor accepting it the outcome is \<open>success = True\<close> with the transitional label.
\<close>

theorem noop_needs_exact_target:
  assumes "snd (ProxmoxClient_get_vm_status px i) = Inr cur"
  shows "(StartPost i \<in> set (fst (ProxmoxClient_start_vm px i))) = (status cur \<noteq> ''running'')
       \<and> (StopPost i \<in> set (fst (ProxmoxClient_stop_vm px i))) = (status cur \<noteq> ''stopped'')
       \<and> (ShutdownPost i \<in> set (fst (ProxmoxClient_shutdown_vm px i)))
            = (status cur \<noteq> ''stopped'')
       \<and> (status cur \<noteq> ''running'' \<and> status_start_post px i = None \<longrightarrow>
            (\<exists>r. snd (ProxmoxClient_start_vm px i) = Inr r \<and> act_success r
                 \<and> act_status r = ''starting''))
       \<and> (status cur \<noteq> ''stopped'' \<and> status_stop_post px i = None \<longrightarrow>
            (\<exists>r. snd (ProxmoxClient_stop_vm px i) = Inr r \<and> act_success r
                 \<and> act_status r = ''stopping''))
       \<and> (status cur \<noteq> ''stopped'' \<and> status_shutdown_post px i = None \<longrightarrow>
            (\<exists>r. snd (ProxmoxClient_shutdown_vm px i) = Inr r \<and> act_success r
                 \<and> act_status r = ''shutting_down''))"
proof -
  from assms have g: "ProxmoxClient_get_vm_status px i = ([CurrentGet i], Inr cur)"
    using get_vm_status_trace[of px i] by (cases "ProxmoxClient_get_vm_status px i") simp
  show ?thesis
    by (auto simp: ProxmoxClient_start_vm_def ProxmoxClient_stop_vm_def
          ProxmoxClient_shutdown_vm_def g split: option.splits)
qed

theorem adapter_noop_or_command_witness:
  "snd (ProxmoxClient_get_vm_status sample_px 106) =
     Inr \<lparr> vm_id = 106, vm_name = ''ws-106'', status = ''running'', uptime = Some 0,
           cpu = Some 0, memory = Some 0, maxmem = Some 0, error = None \<rparr>
   \<and> ProxmoxClient_start_vm sample_px 106 =
       ([CurrentGet 106],
        Inr \<lparr> act_success = False, act_message = ''VM is already running'', act_vm_id = 106,
              act_vm_name = ''ws-106'', act_status = ''running'' \<rparr>)
   \<and> ProxmoxClient_stop_vm sample_px 106 =
       ([CurrentGet 106, StopPost 106],
        Inr \<lparr> act_success = True, act_message = ''VM stop command sent successfully'',
              act_vm_id = 106, act_vm_name = ''ws-106'', act_status = ''stopping'' \<rparr>)
   \<and> ProxmoxClient_shutdown_vm sample_px 106 =
       ([CurrentGet 106, ShutdownPost 106],
        Inr \<lparr> act_success = True, act_message = ''VM shutdown command sent successfully'',
              act_vm_id = 106, act_vm_name = ''ws-106'', act_status = ''shutting_down'' \<rparr>)
   \<and> snd (ProxmoxClient_get_vm_status sample_px 103) =
       Inr \<lparr> vm_id = 103, vm_name = ''ws-103'', status = ''stopped'', uptime = Some 0,
             cpu = Some 0, memory = Some 0, maxmem = Some 0, error = None \<rparr>
   \<and> ProxmoxClient_start_vm sample_px 103 =
       ([CurrentGet 103, StartPost 103],
        Inr \<lparr> act_success = True, act_message = ''VM start command sent successfully'',
              act_vm_id = 103, act_vm_name = ''ws-103'', act_status = ''starting'' \<rparr>)
   \<and> ProxmoxClient_stop_vm sample_px 103 =
       ([CurrentGet 103],
        Inr \<lparr> act_success = False, act_message = ''VM is already stopped'', act_vm_id = 103,
              act_vm_name = ''ws-103'', act_status = ''stopped'' \<rparr>)
   \<and> ProxmoxClient_shutdown_vm sample_px 103 =
       ([CurrentGet 103],
        Inr \<lparr> act_success = False, act_message = ''VM is already stopped'', act_vm_id = 103,
              act_vm_name = ''ws-103'', act_status = ''stopped'' \<rparr>)"
proof -
  have r: "snd (ProxmoxClient_get_vm_status sample_px 106) =
     Inr \<lparr> vm_id = 106, vm_name = ''ws-106'', status = ''running'', uptime = Some 0,
           cpu = Some 0, memory = Some 0, maxmem = Some 0, error = None \<rparr>"
    by (simp add: ProxmoxClient_get_vm_status_def sample_px_def sample_cfg_def dict_get_def)
  have s: "snd (ProxmoxClient_get_vm_status sample_px 103) =
       Inr \<lparr> vm_id = 103, vm_name = ''ws-103'', status = ''stopped'', uptime = Some 0,
             cpu = Some 0, memory = Some 0, maxmem = Some 0, error = None \<rparr>"
    by (simp add: ProxmoxClient_get_vm_status_def sample_px_def sample_cfg_def dict_get_def)
  have p: "status_start_post sample_px 103 = None" "status_stop_post sample_px 106 = None"
    "status_shutdown_post sample_px 106 = None"
    by (simp_all add: sample_px_def)
  from adapter_noop_or_command[OF r] adapter_noop_or_command[OF s] p r s
  show ?thesis by simp
qed

theorem noop_needs_exact_target_witness:
  "snd (ProxmoxClient_get_vm_status sample_px 102) =
     Inr \<lparr> vm_id = 102, vm_name = ''ws-102'', status = ''paused'', uptime = Some 0,
           cpu = Some 0, memory = Some 0, maxmem = Some 0, error = None \<rparr>
   \<and> snd (ProxmoxClient_get_vm_status sample_px 104) =
     Inr \<lparr> vm_id = 104, vm_name = ''VM-104'', status = ''unknown'', uptime = Some 0,
           cpu = Some 0, memory = Some 0, maxmem = Some 0, error = None \<rparr>
   \<and> StartPost 102 \<in> set (fst (ProxmoxClient_start_vm sample_px 102))
   \<and> StopPost 102 \<in> set (fst (ProxmoxClient_stop_vm sample_px 102))
   \<and> ShutdownPost 102 \<in> set (fst (ProxmoxClient_shutdown_vm sample_px 102))
   \<and> StartPost 104 \<in> set (fst (ProxmoxClient_start_vm sample_px 104))
   \<and> StopPost 104 \<in> set (fst (ProxmoxClient_stop_vm sample_px 104))
   \<and> ShutdownPost 104 \<in> set (fst (ProxmoxClient_shutdown_vm sample_px 104))
   \<and> (\<exists>r. snd (ProxmoxClient_start_vm sample_px 102) = Inr r \<and> act_success r
          \<and> act_status r = ''starting'')
   \<and> (\<exists>r. snd (ProxmoxClient_stop_vm sample_px 104) = Inr r \<and> act_success r
          \<and> act_status r = ''stopping'')
   \<and> (\<exists>r. snd (ProxmoxClient_shutdown_vm sample_px 104) = Inr r \<and> act_success r
          \<and> act_status r = ''shutting_down'')"
proof -
  have r: "snd (ProxmoxClient_get_vm_status sample_px 102) =
     Inr \<lparr> vm_id = 102, vm_name = ''ws-102'', status = ''paused'', uptime = Some 0,
           cpu = Some 0, memory = Some 0, maxmem = Some 0, error = None \<rparr>"
    by (simp add: ProxmoxClient_get_vm_status_def sample_px_def sample_cfg_def dict_get_def)
  have s: "snd (ProxmoxClient_get_vm_status sample_px 104) =
     Inr \<lparr> vm_id = 104, vm_name = ''VM-104'', status = ''unknown'', uptime = Some 0,
           cpu = Some 0, memory = Some 0, maxmem = Some 0, error = None \<rparr>"
    by (simp add: ProxmoxClient_get_vm_status_def sample_px_def dict_get_def str_int_104)
  have p: "status_start_post sample_px 102 = None" "status_stop_post sample_px 104 = None"
    "status_shutdown_post sample_px 104 = None"
    by (simp_all add: sample_px_def)
  from noop_needs_exact_target[OF r] noop_needs_exact_target[OF s] p r s
  show ?thesis by simp
qed

section \<open>Properties of the store lookups\<close>

lemma find_unique_key:
  "distinct (map f xs) \<Longrightarrow> a \<in> set xs \<Longrightarrow> find (\<lambda>x. f x = f a) xs = Some a"
  by (induction xs) (auto simp: image_iff)

lemma filter_unique_key:
  "distinct (map f xs) \<Longrightarrow> a \<in> set xs \<Longrightarrow> filter (\<lambda>x. f x = f a) xs = [a]"
proof (induction xs)
  case Nil
  then show ?case by simp
next
  case (Cons x xs)
  show ?case
  proof (cases "x = a")
    case True
    with Cons.prems have "\<forall>y\<in>set xs. f y \<noteq> f a"
      by (auto simp: image_iff)
    then have "filter (\<lambda>x. f x = f a) xs = []"
      by (simp add: filter_empty_conv)
    with True show ?thesis by simp
  next
    case False
    with Cons.prems have "a \<in> set xs" "distinct (map f xs)" "f x \<noteq> f a"
      by (auto simp: image_iff)
    with Cons.IH show ?thesis by simp
  qed
qed

lemma filter_unique_key_and:
  "distinct (map f xs) \<Longrightarrow> a \<in> set xs \<Longrightarrow> P a \<Longrightarrow>
   filter (\<lambda>x. f x = f a \<and> P x) xs = [a]"
proof -
  assume d: "distinct (map f xs)" and a: "a \<in> set xs" and p: "P a"
  have "filter (\<lambda>x. f x = f a \<and> P x) xs = filter P (filter (\<lambda>x. f x = f a) xs)"
    by (simp add: conj_commute)
  with filter_unique_key[OF d a] p show ?thesis by simp
qed

lemma filter_no_row:
  "\<not> (\<exists>x\<in>set xs. P x) \<Longrightarrow> filter P xs = []"
  by (simp add: filter_empty_conv)

section \<open>Properties of the VM routes\<close>

lemma start_vm_trace_head:
  "CurrentGet i \<in> set (fst (ProxmoxClient_start_vm px i))"
  by (auto simp: ProxmoxClient_start_vm_def ProxmoxClient_get_vm_status_def
      split: sum.splits option.splits)

lemma check_permissions_admin:
  "u_is_admin u \<Longrightarrow> check_permissions d u i = Inr ()"
  by (simp add: check_permissions_def)

lemma check_permissions_assigned:
  assumes "unique_user_vm_assignment d"
    and "a \<in> set (vm_assignments d)" and "a_user_id a = u_id u" and "a_vm_id a = i"
  shows "check_permissions d u i = Inr ()"
proof -
  from assms(1) have "distinct (map a_user_id (vm_assignments d))"
    by (simp add: unique_user_vm_assignment_def)
  from filter_unique_key_and[OF this assms(2), of "\<lambda>x. a_vm_id x = i"] assms(3,4)
  have "filter (\<lambda>x. a_user_id x = u_id u \<and> a_vm_id x = i) (vm_assignments d) = [a]"
    by simp
  then show ?thesis by (simp add: check_permissions_def)
qed

lemma check_permissions_denied:
  assumes "\<not> u_is_admin u"
    and "\<not> (\<exists>a\<in>set (vm_assignments d). a_user_id a = u_id u \<and> a_vm_id a = i)"
  shows "check_permissions d u i =
           Inl (HTTPException 403 (''You don'' @ [CHR 0x27] @ ''t have access to this VM''))"
proof -
  from assms(2)
  have "filter (\<lambda>a. a_user_id a = u_id u \<and> a_vm_id a = i) (vm_assignments d) = []"
    by (rule filter_no_row)
  with assms(1) show ?thesis by (simp add: check_permissions_def)
qed

lemma start_vm_except_status:
  "start_vm_except f d s u h i e = (d2, r) \<Longrightarrow> status_code r = 500"
  by (auto simp: start_vm_except_def session_commit_def
      split: if_splits option.splits commit_fault.splits)

lemma vms_start_vm_allowed:
  assumes "check_permissions d u i = Inr ()"
  shows "fst (snd (vms_start_vm px f1 f2 d u h i)) = fst (ProxmoxClient_start_vm px i)"
    and "status_code (snd (snd (vms_start_vm px f1 f2 d u h i))) \<noteq> 403"
proof -
  show "fst (snd (vms_start_vm px f1 f2 d u h i)) = fst (ProxmoxClient_start_vm px i)"
    using assms
    by (auto simp: vms_start_vm_def split: prod.splits sum.splits)
  have "status_code (snd (snd (vms_start_vm px f1 f2 d u h i))) \<in> {200, 500}"
    using assms
    by (auto simp: vms_start_vm_def split: prod.splits sum.splits
        dest: start_vm_except_status)
  then show "status_code (snd (snd (vms_start_vm px f1 f2 d u h i))) \<noteq> 403"
    by auto
qed

lemma vms_get_vm_status_allowed:
  assumes "check_permissions d u i = Inr ()"
  shows "fst (vms_get_vm_status px d u i) = [CurrentGet i]"
    and "status_code (snd (vms_get_vm_status px d u i)) \<noteq> 403"
  using assms
  by (auto simp: vms_get_vm_status_def ProxmoxClient_get_vm_status_def split: sum.splits)

text \<open>
  Claim C1. Let the store satisfy its uniqueness constraint on \<open>user_id\<close>. For an
  authenticated user and any VM id, \<open>get_vm_status\<close> and \<open>start_vm\<close> go on to the
  hypervisor when the user is an admin (whatever the id) or, for a non-admin, when a
  \<open>VMAssignment\<close> row with that user's id and that VM id exists; in that case neither
  route answers 403. In the one remaining case, a non-admin without such a row, both
  routes answer 403 Forbidden without reaching the hypervisor.
\<close>

theorem vm_access_rule:
  assumes "unique_user_vm_assignment d"
  shows "(u_is_admin u \<or> (\<exists>a\<in>set (vm_assignments d). a_user_id a = u_id u \<and> a_vm_id a = i) \<longrightarrow>
            check_permissions d u i = Inr ()
          \<and> fst (vms_get_vm_status px d u i) = [CurrentGet i]
          \<and> status_code (snd (vms_get_vm_status px d u i)) \<noteq> 403
          \<and> CurrentGet i \<in> set (fst (snd (vms_start_vm px f1 f2 d u h i)))
          \<and> status_code (snd (snd (vms_start_vm px f1 f2 d u h i))) \<noteq> 403)
       \<and> (\<not> u_is_admin u
            \<and> \<not> (\<exists>a\<in>set (vm_assignments d). a_user_id a = u_id u \<and> a_vm_id a = i) \<longrightarrow>
            vms_get_vm_status px d u i =
              ([], Inl (HTTPException 403
                          (''You don'' @ [CHR 0x27] @ ''t have access to this VM'')))
          \<and> vms_start_vm px f1 f2 d u h i =
              (d, [], Inl (HTTPException 403
                             (''You don'' @ [CHR 0x27] @ ''t have access to this VM''))))"
proof (intro conjI impI)
  assume al: "u_is_admin u \<or> (\<exists>a\<in>set (vm_assignments d). a_user_id a = u_id u \<and> a_vm_id a = i)"
  then show ok: "check_permissions d u i = Inr ()"
    using check_permissions_admin[of u d i] check_permissions_assigned[OF assms, of _ u i]
    by blast
  from vms_get_vm_status_allowed[OF ok]
  show "fst (vms_get_vm_status px d u i) = [CurrentGet i]"
    and "status_code (snd (vms_get_vm_status px d u i)) \<noteq> 403"
    by simp_all
  from vms_start_vm_allowed[OF ok] start_vm_trace_head[of i px]
  show "CurrentGet i \<in> set (fst (snd (vms_start_vm px f1 f2 d u h i)))"
    and "status_code (snd (snd (vms_start_vm px f1 f2 d u h i))) \<noteq> 403"
    by simp_all
next
  assume dn: "\<not> u_is_admin u
            \<and> \<not> (\<exists>a\<in>set (vm_assignments d). a_user_id a = u_id u \<and> a_vm_id a = i)"
  then have c: "check_permissions d u i =
           Inl (HTTPException 403 (''You don'' @ [CHR 0x27] @ ''t have access to this VM''))"
    using check_permissions_denied by blast
  then show "vms_get_vm_status px d u i =
              ([], Inl (HTTPException 403
                          (''You don'' @ [CHR 0x27] @ ''t have access to this VM'')))"
    by (simp add: vms_get_vm_status_def)
  from c show "vms_start_vm px f1 f2 d u h i =
              (d, [], Inl (HTTPException 403
                             (''You don'' @ [CHR 0x27] @ ''t have access to this VM'')))"
    by (simp add: vms_start_vm_def)
qed

theorem vm_access_rule_witness:
  "unique_user_vm_assignment sample_db
   \<and> u_is_admin root_user
   \<and> check_permissions sample_db root_user 106 = Inr ()
   \<and> CurrentGet 106 \<in> set (fst (snd (vms_start_vm sample_px None None sample_db root_user None 106)))
   \<and> \<not> u_is_admin alice
   \<and> (\<exists>a\<in>set (vm_assignments sample_db). a_user_id a = u_id alice \<and> a_vm_id a = 103)
   \<and> check_permissions sample_db alice 103 = Inr ()
   \<and> fst (vms_get_vm_status sample_px sample_db alice 103) = [CurrentGet 103]
   \<and> \<not> (\<exists>a\<in>set (vm_assignments sample_db). a_user_id a = u_id alice \<and> a_vm_id a = 106)
   \<and> vms_get_vm_status sample_px sample_db alice 106 =
       ([], Inl (HTTPException 403 (''You don'' @ [CHR 0x27] @ ''t have access to this VM'')))
   \<and> \<not> u_is_admin bob
   \<and> \<not> (\<exists>a\<in>set (vm_assignments sample_db). a_user_id a = u_id bob \<and> a_vm_id a = 103)
   \<and> vms_start_vm sample_px None None sample_db bob None 103 =
       (sample_db, [],
        Inl (HTTPException 403 (''You don'' @ [CHR 0x27] @ ''t have access to this VM'')))"
proof -
  have q: "unique_user_vm_assignment sample_db"
    by (simp add: unique_user_vm_assignment_def sample_defs)
  have r: "u_is_admin root_user"
    by (simp add: sample_defs)
  have a: "\<not> u_is_admin alice"
    "\<exists>a\<in>set (vm_assignments sample_db). a_user_id a = u_id alice \<and> a_vm_id a = 103"
    "\<not> (\<exists>a\<in>set (vm_assignments sample_db). a_user_id a = u_id alice \<and> a_vm_id a = 106)"
    by (simp_all add: sample_defs)
  have b: "\<not> u_is_admin bob"
    "\<not> (\<exists>a\<in>set (vm_assignments sample_db). a_user_id a = u_id bob \<and> a_vm_id a = 103)"
    by (simp_all add: sample_defs)
  from vm_access_rule[OF q, of root_user 106 sample_px None None None] r
  have 1: "check_permissions sample_db root_user 106 = Inr ()"
    "CurrentGet 106 \<in> set (fst (snd (vms_start_vm sample_px None None sample_db root_user None 106)))"
    by blast+
  from vm_access_rule[OF q, of alice 103 sample_px None None None] a(2)
  have 2: "check_permissions sample_db alice 103 = Inr ()"
    "fst (vms_get_vm_status sample_px sample_db alice 103) = [CurrentGet 103]"
    by blast+
  from vm_access_rule[OF q, of alice 106 sample_px None None None] a(1,3)
  have 3: "vms_get_vm_status sample_px sample_db alice 106 =
       ([], Inl (HTTPException 403 (''You don'' @ [CHR 0x27] @ ''t have access to this VM'')))"
    by blast
  from vm_access_rule[OF q, of bob 103 sample_px None None None] b
  have 4: "vms_start_vm sample_px None None sample_db bob None 103 =
       (sample_db, [],
        Inl (HTTPException 403 (''You don'' @ [CHR 0x27] @ ''t have access to this VM'')))"
    by blast
  from q r a b 1 2 3 4 show ?thesis by blast
qed

text \<open>
  Claim C9. A start request of a non-admin without a matching assignment row is
  answered 403 with no call to the hypervisor and with the store exactly as it was, so
  no audit row is written. More generally, whenever \<open>start_vm\<close> leaves the store changed,
  the request has reached the hypervisor adapter.
\<close>

theorem denied_start_leaves_no_trace:
  "(\<not> u_is_admin u
      \<and> \<not> (\<exists>a\<in>set (vm_assignments d). a_user_id a = u_id u \<and> a_vm_id a = i) \<longrightarrow>
      vms_start_vm px f1 f2 d u h i =
        (d, [], Inl (HTTPException 403
                       (''You don'' @ [CHR 0x27] @ ''t have access to this VM''))))
   \<and> (fst (vms_start_vm px f1 f2 d u h i) \<noteq> d \<longrightarrow>
        CurrentGet i \<in> set (fst (snd (vms_start_vm px f1 f2 d u h i))))"
proof (intro conjI impI)
  assume "\<not> u_is_admin u
      \<and> \<not> (\<exists>a\<in>set (vm_assignments d). a_user_id a = u_id u \<and> a_vm_id a = i)"
  then have "check_permissions d u i =
           Inl (HTTPException 403 (''You don'' @ [CHR 0x27] @ ''t have access to this VM''))"
    using check_permissions_denied by blast
  then show "vms_start_vm px f1 f2 d u h i =
        (d, [], Inl (HTTPException 403
                       (''You don'' @ [CHR 0x27] @ ''t have access to this VM'')))"
    by (simp add: vms_start_vm_def)
next
  assume ch: "fst (vms_start_vm px f1 f2 d u h i) \<noteq> d"
  show "CurrentGet i \<in> set (fst (snd (vms_start_vm px f1 f2 d u h i)))"
  proof (cases "check_permissions d u i")
    case (Inl e)
    with ch show ?thesis by (simp add: vms_start_vm_def)
  next
    case (Inr ok)
    then have "check_permissions d u i = Inr ()" by simp
    from vms_start_vm_allowed(1)[OF this] start_vm_trace_head[of i px]
    show ?thesis by simp
  qed
qed

theorem denied_start_leaves_no_trace_witness:
  "\<not> u_is_admin bob
   \<and> \<not> (\<exists>a\<in>set (vm_assignments sample_db). a_user_id a = u_id bob \<and> a_vm_id a = 103)
   \<and> vms_start_vm sample_px None None sample_db bob (Some ''10.0.0.9'') 103 =
       (sample_db, [],
        Inl (HTTPException 403 (''You don'' @ [CHR 0x27] @ ''t have access to this VM'')))
   \<and> fst (vms_start_vm sample_px None None sample_db alice None 103) \<noteq> sample_db
   \<and> CurrentGet 103 \<in> set (fst (snd (vms_start_vm sample_px None None sample_db alice None 103)))"
proof -
  have b: "\<not> u_is_admin bob"
    "\<not> (\<exists>a\<in>set (vm_assignments sample_db). a_user_id a = u_id bob \<and> a_vm_id a = 103)"
    by (simp_all add: sample_defs)
  have "audit_logs (fst (vms_start_vm sample_px None None sample_db alice None 103))
          \<noteq> audit_logs sample_db"
    by (simp add: vms_start_vm_def check_permissions_def ProxmoxClient_start_vm_def
        ProxmoxClient_get_vm_status_def session_commit_def session_add_def insert_audit_log_def
        dict_get_def sample_defs)
  then have c: "fst (vms_start_vm sample_px None None sample_db alice None 103) \<noteq> sample_db"
    by auto
  from denied_start_leaves_no_trace[of bob sample_db 103 sample_px None None "Some ''10.0.0.9''"]
    denied_start_leaves_no_trace[of alice sample_db 103 sample_px None None None] b c
  show ?thesis by blast
qed

section \<open>The audit row of a start request\<close>

lemma str_int_103: "str_int 103 = ''103''"
  by code_simp

text \<open>
  Claim C2, as the code has it. Let a start request pass the permission check and let
  the store accept the commit of the audit row. Then exactly one row is appended to
  \<open>audit_logs\<close>: when the adapter returns, the row carries the adapter's success flag
  (and its message as error message when the flag is false) and the response is the
  adapter's outcome; when the adapter raises, the row has \<open>success = False\<close> and the
  exception's message, and the response is 500 with that message. Never both rows,
  never none. Nothing is stated here for a commit that the store refuses.
\<close>

theorem start_vm_one_audit_row:
  assumes "check_permissions d u i = Inr ()"
  shows "(ProxmoxClient_start_vm px i = (t, Inr r) \<longrightarrow>
            vms_start_vm px None fb d u h i =
              (d\<lparr> audit_logs := audit_logs d @
                     [\<lparr> l_id = audit_logs_seq d, l_user_id = Some (u_id u),
                        l_user_email = u_email u, l_action = ''start'', l_vm_id = i,
                        l_vm_name = Some (act_vm_name r), l_success = act_success r,
                        l_error_message =
                          (if act_success r then None else Some (act_message r)),
                        l_ip_address = h, l_timestamp = clock d \<rparr>],
                  audit_logs_seq := Suc (audit_logs_seq d) \<rparr>,
               t, Inr r))
       \<and> (ProxmoxClient_start_vm px i = (t, Inl e) \<longrightarrow>
            vms_start_vm px None fb d u h i =
              (d\<lparr> audit_logs := audit_logs d @
                     [\<lparr> l_id = audit_logs_seq d, l_user_id = Some (u_id u),
                        l_user_email = u_email u, l_action = ''start'', l_vm_id = i,
                        l_vm_name = Some (''VM-'' @ str_int i), l_success = False,
                        l_error_message = Some (str_exn e),
                        l_ip_address = h, l_timestamp = clock d \<rparr>],
                  audit_logs_seq := Suc (audit_logs_seq d) \<rparr>,
               t, Inl (HTTPException 500 (''Failed to start VM: '' @ str_exn e))))"
  using assms
  by (simp add: vms_start_vm_def start_vm_except_def session_commit_def session_add_def
      insert_audit_log_def)

theorem start_vm_one_audit_row_witness:
  "check_permissions sample_db alice 103 = Inr ()
   \<and> ProxmoxClient_start_vm sample_px 103 =
       ([CurrentGet 103, StartPost 103],
        Inr \<lparr> act_success = True, act_message = ''VM start command sent successfully'',
              act_vm_id = 103, act_vm_name = ''ws-103'', act_status = ''starting'' \<rparr>)
   \<and> audit_logs (fst (vms_start_vm sample_px None None sample_db alice (Some ''10.0.0.7'') 103))
       = [alice_log, root_log,
          \<lparr> l_id = 3, l_user_id = Some ''u-alice'', l_user_email = ''alice@example.com'',
            l_action = ''start'', l_vm_id = 103, l_vm_name = Some ''ws-103'',
            l_success = True, l_error_message = None, l_ip_address = Some ''10.0.0.7'',
            l_timestamp = 9 \<rparr>]
   \<and> check_permissions sample_db root_user 101 = Inr ()
   \<and> ProxmoxClient_start_vm sample_px 101 =
       ([CurrentGet 101],
        Inl (Exception ''Failed to start VM: Failed to get VM status: timed out''))
   \<and> audit_logs (fst (vms_start_vm sample_px None None sample_db root_user None 101))
       = [alice_log, root_log,
          \<lparr> l_id = 3, l_user_id = Some ''u-root'', l_user_email = ''root@example.com'',
            l_action = ''start'', l_vm_id = 101, l_vm_name = Some ''VM-101'',
            l_success = False,
            l_error_message = Some ''Failed to start VM: Failed to get VM status: timed out'',
            l_ip_address = None, l_timestamp = 9 \<rparr>]
   \<and> snd (snd (vms_start_vm sample_px None None sample_db root_user None 101)) =
       Inl (HTTPException 500
              ''Failed to start VM: Failed to start VM: Failed to get VM status: timed out'')"
proof -
  have a: "check_permissions sample_db alice 103 = Inr ()"
    by (simp add: check_permissions_def sample_defs)
  have b: "check_permissions sample_db root_user 101 = Inr ()"
    by (simp add: check_permissions_def sample_defs)
  have c: "ProxmoxClient_start_vm sample_px 103 =
       ([CurrentGet 103, StartPost 103],
        Inr \<lparr> act_success = True, act_message = ''VM start command sent successfully'',
              act_vm_id = 103, act_vm_name = ''ws-103'', act_status = ''starting'' \<rparr>)"
    by (simp add: ProxmoxClient_start_vm_def ProxmoxClient_get_vm_status_def dict_get_def
        sample_px_def sample_cfg_def)
  have e: "ProxmoxClient_start_vm sample_px 101 =
       ([CurrentGet 101],
        Inl (Exception ''Failed to start VM: Failed to get VM status: timed out''))"
    by (simp add: ProxmoxClient_start_vm_def ProxmoxClient_get_vm_status_def sample_px_def)
  from start_vm_one_audit_row[OF a, where px = sample_px and fb = None
      and h = "Some ''10.0.0.7''" and t = "[CurrentGet 103, StartPost 103]"
      and r = "\<lparr> act_success = True, act_message = ''VM start command sent successfully'',
              act_vm_id = 103, act_vm_name = ''ws-103'', act_status = ''starting'' \<rparr>"] c
  have 1: "audit_logs (fst (vms_start_vm sample_px None None sample_db alice (Some ''10.0.0.7'') 103))
       = [alice_log, root_log,
          \<lparr> l_id = 3, l_user_id = Some ''u-alice'', l_user_email = ''alice@example.com'',
            l_action = ''start'', l_vm_id = 103, l_vm_name = Some ''ws-103'',
            l_success = True, l_error_message = None, l_ip_address = Some ''10.0.0.7'',
            l_timestamp = 9 \<rparr>]"
    by (simp add: sample_db_def alice_def)
  from start_vm_one_audit_row[OF b, where px = sample_px and fb = None and h = None
      and t = "[CurrentGet 101]"
      and e = "Exception ''Failed to start VM: Failed to get VM status: timed out''"] e
  have 2: "audit_logs (fst (vms_start_vm sample_px None None sample_db root_user None 101))
       = [alice_log, root_log,
          \<lparr> l_id = 3, l_user_id = Some ''u-root'', l_user_email = ''root@example.com'',
            l_action = ''start'', l_vm_id = 101, l_vm_name = Some ''VM-101'',
            l_success = False,
            l_error_message = Some ''Failed to start VM: Failed to get VM status: timed out'',
            l_ip_address = None, l_timestamp = 9 \<rparr>]"
    "snd (snd (vms_start_vm sample_px None None sample_db root_user None 101)) =
       Inl (HTTPException 500
              ''Failed to start VM: Failed to start VM: Failed to get VM status: timed out'')"
    by (simp_all add: sample_db_def root_user_def str_int_101)
  from a b c e 1 2 show ?thesis by simp
qed

text \<open>
  The commit of the audit row stands inside the \<^verbatim>\<open>try\<close> block of the route, and
  the \<^verbatim>\<open>except\<close> branch commits again on the same session. Here the adapter has
  returned \<open>success = True\<close> for VM 103 and the first commit raises. After a failed
  flush the second commit raises \<open>PendingRollbackError\<close>: the request ends in an
  unhandled exception and no row is stored. With the first row still pending, an
  accepted second commit stores both rows, the success row and the failure row, and
  the request is answered 500. With both commits refused no row is stored.
\<close>

theorem audit_failure_masks_outcome:
  "check_permissions sample_db alice 103 = Inr ()
   \<and> snd (ProxmoxClient_start_vm sample_px 103) =
        Inr \<lparr> act_success = True, act_message = ''VM start command sent successfully'',
              act_vm_id = 103, act_vm_name = ''ws-103'', act_status = ''starting'' \<rparr>
   \<and> vms_start_vm sample_px (Some (Flush_failed ''connection lost'')) None sample_db alice
        None 103
        = (sample_db, [CurrentGet 103, StartPost 103], Inl PendingRollbackError)
   \<and> snd (snd (vms_start_vm sample_px (Some (Not_flushed ''connection lost'')) None sample_db
                  alice None 103))
        = Inl (HTTPException 500 ''Failed to start VM: connection lost'')
   \<and> audit_logs (fst (vms_start_vm sample_px (Some (Not_flushed ''connection lost'')) None
                        sample_db alice None 103))
        = [alice_log, root_log,
           \<lparr> l_id = 3, l_user_id = Some ''u-alice'', l_user_email = ''alice@example.com'',
             l_action = ''start'', l_vm_id = 103, l_vm_name = Some ''ws-103'',
             l_success = True, l_error_message = None,
             l_ip_address = None, l_timestamp = 9 \<rparr>,
           \<lparr> l_id = 4, l_user_id = Some ''u-alice'', l_user_email = ''alice@example.com'',
             l_action = ''start'', l_vm_id = 103, l_vm_name = Some ''VM-103'',
             l_success = False, l_error_message = Some ''connection lost'',
             l_ip_address = None, l_timestamp = 9 \<rparr>]
   \<and> vms_start_vm sample_px (Some (Not_flushed ''connection lost''))
        (Some (Not_flushed ''connection lost'')) sample_db alice None 103
        = (sample_db, [CurrentGet 103, StartPost 103], Inl (OperationalError ''connection lost''))"
  by (simp add: vms_start_vm_def start_vm_except_def session_commit_def session_add_def
      insert_audit_log_def check_permissions_def ProxmoxClient_start_vm_def
      ProxmoxClient_get_vm_status_def dict_get_def sample_defs str_int_103)

section \<open>The VM list of a non-admin\<close>

lemma str_int_999: "str_int 999 = ''999''"
  by code_simp

lemma str_nat_404: "str_nat 404 = ''404''"
  by code_simp

lemma assignments_of_none:
  "\<forall>a\<in>set (vm_assignments d). a_user_id a \<noteq> uid \<Longrightarrow> assignments_of d uid = []"
  by (simp add: assignments_of_def filter_empty_conv)

lemma assignments_of_one:
  assumes "unique_user_vm_assignment d" and "a \<in> set (vm_assignments d)"
  shows "assignments_of d (a_user_id a) = [a]"
  using assms filter_unique_key[of a_user_id "vm_assignments d" a]
  by (simp add: assignments_of_def unique_user_vm_assignment_def)

lemma find_in_listing:
  "v \<in> set (map vm_id l) \<Longrightarrow>
   \<exists>user_vm\<in>set l. vm_id user_vm = v \<and> find (\<lambda>vm. vm_id vm = v) l = Some user_vm"
  by (induction l) auto

lemma find_not_in_listing:
  "v \<notin> set (map vm_id l) \<Longrightarrow> find (\<lambda>vm. vm_id vm = v) l = None"
  by (induction l) auto

lemma vms_list_vms_snd:
  "snd (vms_list_vms px d u) =
     (case list_vms_try d u (snd (ProxmoxClient_get_all_vms px None)) of
        Inl e \<Rightarrow> Inl (HTTPException 500 (''Failed to fetch VMs: '' @ str_exn e))
      | Inr r \<Rightarrow> Inr r)"
  by (cases "ProxmoxClient_get_all_vms px None") (simp add: vms_list_vms_def)

lemma default_listing_ids:
  "map vm_id (snd (ProxmoxClient_get_all_vms px None)) = default_vm_ids"
  unfolding ProxmoxClient_get_all_vms_def by (simp add: loop_vm_id)

text \<open>
  Claim C4. For a non-admin caller of the VM list, under the uniqueness constraint on
  \<open>user_id\<close>: without an assignment row the result is the empty list; with an assignment
  whose VM id is in the hypervisor listing the result is exactly one entry, built from
  the listing's entry of that id; with an assignment whose VM id is not in the listing
  the request fails: the 404 raised for the missing VM leaves the route as an error
  (re-raised as 500 by the route's own handler), never as an empty or partial list.
\<close>

theorem list_vms_non_admin:
  assumes "\<not> u_is_admin u" and "unique_user_vm_assignment d"
  shows "((\<forall>a\<in>set (vm_assignments d). a_user_id a \<noteq> u_id u) \<longrightarrow>
            snd (vms_list_vms px d u) = Inr \<lparr> vms = [], total = 0 \<rparr>)
       \<and> (\<forall>a\<in>set (vm_assignments d). a_user_id a = u_id u \<longrightarrow>
            (a_vm_id a \<in> set (map vm_id (snd (ProxmoxClient_get_all_vms px None))) \<longrightarrow>
               (\<exists>user_vm\<in>set (snd (ProxmoxClient_get_all_vms px None)).
                   vm_id user_vm = a_vm_id a
                 \<and> snd (vms_list_vms px d u) =
                     Inr \<lparr> vms = [\<lparr> r_vm_id = a_vm_id a, r_vm_name = vm_name user_vm,
                                     r_status = status user_vm, r_uptime = uptime user_vm,
                                     r_assigned_user = Some (u_email u),
                                     r_can_control = True \<rparr>],
                           total = 1 \<rparr>))
          \<and> (a_vm_id a \<notin> set (map vm_id (snd (ProxmoxClient_get_all_vms px None))) \<longrightarrow>
               snd (vms_list_vms px d u) =
                 Inl (HTTPException 500
                        (''Failed to fetch VMs: '' @
                         str_exn (HTTPException 404
                                    (''Assigned VM '' @ str_int (a_vm_id a) @
                                     '' not found in Proxmox''))))))"
proof (intro conjI impI ballI)
  assume "\<forall>a\<in>set (vm_assignments d). a_user_id a \<noteq> u_id u"
  then have "assignments_of d (u_id u) = []"
    by (rule assignments_of_none)
  with assms(1) show "snd (vms_list_vms px d u) = Inr \<lparr> vms = [], total = 0 \<rparr>"
    by (simp add: vms_list_vms_snd list_vms_try_def)
next
  fix a
  assume a: "a \<in> set (vm_assignments d)" and ua: "a_user_id a = u_id u"
    and inl: "a_vm_id a \<in> set (map vm_id (snd (ProxmoxClient_get_all_vms px None)))"
  from assignments_of_one[OF assms(2) a] ua
  have one: "assignments_of d (u_id u) = [a]" by simp
  from find_in_listing[OF inl]
  obtain user_vm where m: "user_vm \<in> set (snd (ProxmoxClient_get_all_vms px None))"
    "vm_id user_vm = a_vm_id a"
    "find (\<lambda>vm. vm_id vm = a_vm_id a) (snd (ProxmoxClient_get_all_vms px None)) = Some user_vm"
    by blast
  from assms(1) one m(2,3)
  have "snd (vms_list_vms px d u) =
          Inr \<lparr> vms = [\<lparr> r_vm_id = a_vm_id a, r_vm_name = vm_name user_vm,
                          r_status = status user_vm, r_uptime = uptime user_vm,
                          r_assigned_user = Some (u_email u), r_can_control = True \<rparr>],
                total = 1 \<rparr>"
    by (simp add: vms_list_vms_snd list_vms_try_def)
  with m(1,2)
  show "\<exists>user_vm\<in>set (snd (ProxmoxClient_get_all_vms px None)).
          vm_id user_vm = a_vm_id a
        \<and> snd (vms_list_vms px d u) =
            Inr \<lparr> vms = [\<lparr> r_vm_id = a_vm_id a, r_vm_name = vm_name user_vm,
                            r_status = status user_vm, r_uptime = uptime user_vm,
                            r_assigned_user = Some (u_email u), r_can_control = True \<rparr>],
                  total = 1 \<rparr>"
    by blast
next
  fix a
  assume a: "a \<in> set (vm_assignments d)" and ua: "a_user_id a = u_id u"
    and nin: "a_vm_id a \<notin> set (map vm_id (snd (ProxmoxClient_get_all_vms px None)))"
  from assignments_of_one[OF assms(2) a] ua
  have one: "assignments_of d (u_id u) = [a]" by simp
  from find_not_in_listing[OF nin] assms(1) one
  show "snd (vms_list_vms px d u) =
          Inl (HTTPException 500
                 (''Failed to fetch VMs: '' @
                  str_exn (HTTPException 404
                             (''Assigned VM '' @ str_int (a_vm_id a) @
                              '' not found in Proxmox''))))"
    by (simp add: vms_list_vms_snd list_vms_try_def)
qed

theorem list_vms_non_admin_witness:
  "\<not> u_is_admin bob \<and> unique_user_vm_assignment sample_db
   \<and> u_id bob \<notin> set (map a_user_id (vm_assignments sample_db))
   \<and> snd (vms_list_vms sample_px sample_db bob) = Inr \<lparr> vms = [], total = 0 \<rparr>
   \<and> \<not> u_is_admin alice
   \<and> alice_assignment \<in> set (vm_assignments sample_db)
   \<and> a_user_id alice_assignment = u_id alice
   \<and> a_vm_id alice_assignment \<in> set (map vm_id (snd (ProxmoxClient_get_all_vms sample_px None)))
   \<and> (\<exists>user_vm\<in>set (snd (ProxmoxClient_get_all_vms sample_px None)).
          vm_id user_vm = 103
        \<and> snd (vms_list_vms sample_px sample_db alice) =
            Inr \<lparr> vms = [\<lparr> r_vm_id = 103, r_vm_name = vm_name user_vm,
                            r_status = status user_vm, r_uptime = uptime user_vm,
                            r_assigned_user = Some ''alice@example.com'',
                            r_can_control = True \<rparr>],
                  total = 1 \<rparr>)
   \<and> \<not> u_is_admin carol
   \<and> carol_assignment \<in> set (vm_assignments sample_db)
   \<and> a_user_id carol_assignment = u_id carol
   \<and> a_vm_id carol_assignment \<notin> set (map vm_id (snd (ProxmoxClient_get_all_vms sample_px None)))
   \<and> snd (vms_list_vms sample_px sample_db carol) =
       Inl (HTTPException 500
              ''Failed to fetch VMs: 404: Assigned VM 999 not found in Proxmox'')"
proof -
  have q: "unique_user_vm_assignment sample_db"
    by (simp add: unique_user_vm_assignment_def sample_defs)
  have l: "map vm_id (snd (ProxmoxClient_get_all_vms sample_px None)) = [106, 103, 101, 102]"
    by (simp add: default_listing_ids default_vm_ids_def)
  have b: "\<not> u_is_admin bob" "\<forall>a\<in>set (vm_assignments sample_db). a_user_id a \<noteq> u_id bob"
    by (simp_all add: sample_defs)
  have a: "\<not> u_is_admin alice" "alice_assignment \<in> set (vm_assignments sample_db)"
    "a_user_id alice_assignment = u_id alice" "a_vm_id alice_assignment = 103"
    "u_email alice = ''alice@example.com''"
    by (simp_all add: sample_defs)
  have c: "\<not> u_is_admin carol" "carol_assignment \<in> set (vm_assignments sample_db)"
    "a_user_id carol_assignment = u_id carol" "a_vm_id carol_assignment = 999"
    by (simp_all add: sample_defs)
  from list_vms_non_admin[OF b(1) q, of sample_px] b(2)
  have 1: "snd (vms_list_vms sample_px sample_db bob) = Inr \<lparr> vms = [], total = 0 \<rparr>"
    by blast
  from a(4) l
  have ain: "a_vm_id alice_assignment \<in> set (map vm_id (snd (ProxmoxClient_get_all_vms sample_px None)))"
    by simp
  from list_vms_non_admin[OF a(1) q, of sample_px] a(2,3) ain
  have "\<exists>user_vm\<in>set (snd (ProxmoxClient_get_all_vms sample_px None)).
          vm_id user_vm = a_vm_id alice_assignment
        \<and> snd (vms_list_vms sample_px sample_db alice) =
            Inr \<lparr> vms = [\<lparr> r_vm_id = a_vm_id alice_assignment, r_vm_name = vm_name user_vm,
                            r_status = status user_vm, r_uptime = uptime user_vm,
                            r_assigned_user = Some (u_email alice),
                            r_can_control = True \<rparr>],
                  total = 1 \<rparr>"
    by blast
  with a(4,5)
  have 2: "\<exists>user_vm\<in>set (snd (ProxmoxClient_get_all_vms sample_px None)).
          vm_id user_vm = 103
        \<and> snd (vms_list_vms sample_px sample_db alice) =
            Inr \<lparr> vms = [\<lparr> r_vm_id = 103, r_vm_name = vm_name user_vm,
                            r_status = status user_vm, r_uptime = uptime user_vm,
                            r_assigned_user = Some ''alice@example.com'',
                            r_can_control = True \<rparr>],
                  total = 1 \<rparr>"
    by simp
  from c(4) l
  have cnin: "a_vm_id carol_assignment \<notin> set (map vm_id (snd (ProxmoxClient_get_all_vms sample_px None)))"
    by simp
  from list_vms_non_admin[OF c(1) q, of sample_px] c(2,3) cnin
  have "snd (vms_list_vms sample_px sample_db carol) =
          Inl (HTTPException 500
                 (''Failed to fetch VMs: '' @
                  str_exn (HTTPException 404
                             (''Assigned VM '' @ str_int (a_vm_id carol_assignment) @
                              '' not found in Proxmox''))))"
    by blast
  with c(4)
  have 3: "snd (vms_list_vms sample_px sample_db carol) =
       Inl (HTTPException 500
              ''Failed to fetch VMs: 404: Assigned VM 999 not found in Proxmox'')"
    by (simp add: str_int_999 str_nat_404)
  have bn: "u_id bob \<notin> set (map a_user_id (vm_assignments sample_db))"
    by (simp add: sample_defs)
  from q b(1) bn a(1,2,3) ain c(1,2,3) cnin 1 2 3 show ?thesis by blast
qed

section \<open>Properties of the admin routes\<close>

lemma user_lookup_none:
  "uid \<notin> set (map u_id (users d)) \<Longrightarrow> filter (\<lambda>u. u_id u = uid) (users d) = []"
  by (auto simp: filter_empty_conv)

lemma user_lookup_one:
  "users_pkey d \<Longrightarrow> usr \<in> set (users d) \<Longrightarrow>
   filter (\<lambda>u. u_id u = u_id usr) (users d) = [usr]"
  using filter_unique_key[of u_id "users d" usr] by (simp add: users_pkey_def)

lemma assignments_of_absent:
  "uid \<notin> set (map a_user_id (vm_assignments d)) \<Longrightarrow> assignments_of d uid = []"
  by (force simp: assignments_of_def filter_empty_conv)

lemma add_vm_assignment_fresh:
  "uid \<notin> set (map a_user_id (vm_assignments d)) \<Longrightarrow>
   add_vm_assignment d uid vid vname =
     Inr (d\<lparr> vm_assignments := vm_assignments d @
                 [\<lparr> a_id = vm_assignments_seq d, a_user_id = uid, a_vm_id = vid,
                    a_vm_name = vname, a_created_at = clock d \<rparr>],
               vm_assignments_seq := Suc (vm_assignments_seq d) \<rparr>,
          \<lparr> a_id = vm_assignments_seq d, a_user_id = uid, a_vm_id = vid,
            a_vm_name = vname, a_created_at = clock d \<rparr>)"
  by (simp add: add_vm_assignment_def Let_def)

lemma assign_no_user:
  assumes "uid \<notin> set (map u_id (users d))"
  shows "admin_assign_vm_to_user px d uid vid =
           (d, [], Inl (HTTPException 404 ''User not found''))"
  using user_lookup_none[OF assms] by (simp add: admin_assign_vm_to_user_def)

lemma assign_already:
  assumes "users_pkey d" and "unique_user_vm_assignment d"
    and "usr \<in> set (users d)" and "a \<in> set (vm_assignments d)" and "a_user_id a = u_id usr"
  shows "admin_assign_vm_to_user px d (u_id usr) vid =
           (d, [], Inl (HTTPException 400
                          (''User already has VM '' @ str_int (a_vm_id a) @ '' assigned'')))"
proof -
  from assignments_of_one[OF assms(2,4)] assms(5)
  have "assignments_of d (u_id usr) = [a]" by simp
  with user_lookup_one[OF assms(1,3)] show ?thesis
    by (simp add: admin_assign_vm_to_user_def)
qed

lemma assign_no_vm:
  assumes "users_pkey d" and "usr \<in> set (users d)"
    and "u_id usr \<notin> set (map a_user_id (vm_assignments d))"
    and "snd (ProxmoxClient_get_vm_status px vid) = Inl e"
  shows "admin_assign_vm_to_user px d (u_id usr) vid =
           (d, [CurrentGet vid],
            Inl (HTTPException 404
                   (''VM '' @ str_int vid @ '' not found in Proxmox: '' @ str_exn e)))"
proof -
  from assms(3) have "assignments_of d (u_id usr) = []"
    by (rule assignments_of_absent)
  moreover from assms(4) get_vm_status_trace[of px vid]
  have "ProxmoxClient_get_vm_status px vid = ([CurrentGet vid], Inl e)"
    by (cases "ProxmoxClient_get_vm_status px vid") simp
  ultimately show ?thesis
    using user_lookup_one[OF assms(1,2)] by (simp add: admin_assign_vm_to_user_def)
qed

lemma assign_ok:
  assumes "users_pkey d" and "usr \<in> set (users d)"
    and "u_id usr \<notin> set (map a_user_id (vm_assignments d))"
    and "snd (ProxmoxClient_get_vm_status px vid) = Inr vm_status"
  shows "admin_assign_vm_to_user px d (u_id usr) vid =
           (d\<lparr> vm_assignments := vm_assignments d @
                  [\<lparr> a_id = vm_assignments_seq d, a_user_id = u_id usr, a_vm_id = vid,
                     a_vm_name = Some (vm_name vm_status), a_created_at = clock d \<rparr>],
               vm_assignments_seq := Suc (vm_assignments_seq d) \<rparr>,
            [CurrentGet vid],
            Inr \<lparr> var_id = vm_assignments_seq d, var_user_id = u_id usr, var_vm_id = vid,
                  var_vm_name = Some (vm_name vm_status), var_created_at = clock d,
                  var_user = usr \<rparr>)"
proof -
  from assms(3) have "assignments_of d (u_id usr) = []"
    by (rule assignments_of_absent)
  moreover from assms(4) get_vm_status_trace[of px vid]
  have "ProxmoxClient_get_vm_status px vid = ([CurrentGet vid], Inr vm_status)"
    by (cases "ProxmoxClient_get_vm_status px vid") simp
  ultimately show ?thesis
    using user_lookup_one[OF assms(1,2)] add_vm_assignment_fresh[OF assms(3)]
    by (simp add: admin_assign_vm_to_user_def)
qed

text \<open>
  Claim C5. Let the store satisfy the primary key of \<open>users\<close> and the uniqueness
  constraint on \<open>user_id\<close> of \<open>vm_assignments\<close>. Creating an assignment fails with 404
  (not found) when the user id has no \<open>User\<close> row; fails with 400, naming the VM already
  assigned (the conflict), when the user has an assignment row; fails with 404 (not
  found) when the hypervisor's status query for the VM raises; and otherwise appends
  one row that stores the VM name reported by that query. On every failure the store is
  unchanged, and in every case the store afterwards still has at most one row per user.
\<close>

theorem assign_vm_to_user_cases:
  assumes "users_pkey d" and "unique_user_vm_assignment d"
  shows "(user_id \<notin> set (map u_id (users d)) \<longrightarrow>
            admin_assign_vm_to_user px d user_id vid =
              (d, [], Inl (HTTPException 404 ''User not found'')))
       \<and> (user_id \<in> set (map u_id (users d)) \<and> a \<in> set (vm_assignments d)
            \<and> a_user_id a = user_id \<longrightarrow>
            admin_assign_vm_to_user px d user_id vid =
              (d, [], Inl (HTTPException 400
                             (''User already has VM '' @ str_int (a_vm_id a) @
                              '' assigned''))))
       \<and> (user_id \<in> set (map u_id (users d))
            \<and> user_id \<notin> set (map a_user_id (vm_assignments d))
            \<and> snd (ProxmoxClient_get_vm_status px vid) = Inl e \<longrightarrow>
            admin_assign_vm_to_user px d user_id vid =
              (d, [CurrentGet vid],
               Inl (HTTPException 404
                      (''VM '' @ str_int vid @ '' not found in Proxmox: '' @ str_exn e))))
       \<and> (user_id \<in> set (map u_id (users d))
            \<and> user_id \<notin> set (map a_user_id (vm_assignments d))
            \<and> snd (ProxmoxClient_get_vm_status px vid) = Inr vm_status \<longrightarrow>
            (\<exists>usr\<in>set (users d). u_id usr = user_id
               \<and> admin_assign_vm_to_user px d user_id vid =
                   (d\<lparr> vm_assignments := vm_assignments d @
                          [\<lparr> a_id = vm_assignments_seq d, a_user_id = user_id, a_vm_id = vid,
                             a_vm_name = Some (vm_name vm_status),
                             a_created_at = clock d \<rparr>],
                       vm_assignments_seq := Suc (vm_assignments_seq d) \<rparr>,
                    [CurrentGet vid],
                    Inr \<lparr> var_id = vm_assignments_seq d, var_user_id = user_id,
                          var_vm_id = vid, var_vm_name = Some (vm_name vm_status),
                          var_created_at = clock d, var_user = usr \<rparr>)))
       \<and> (snd (snd (admin_assign_vm_to_user px d user_id vid)) = Inl x \<longrightarrow>
            fst (admin_assign_vm_to_user px d user_id vid) = d)
       \<and> unique_user_vm_assignment (fst (admin_assign_vm_to_user px d user_id vid))
       \<and> users_pkey (fst (admin_assign_vm_to_user px d user_id vid))"
proof -
  have 1: "user_id \<notin> set (map u_id (users d)) \<longrightarrow>
            admin_assign_vm_to_user px d user_id vid =
              (d, [], Inl (HTTPException 404 ''User not found''))"
    using assign_no_user by blast
  have 2: "user_id \<in> set (map u_id (users d)) \<and> a \<in> set (vm_assignments d)
            \<and> a_user_id a = user_id \<longrightarrow>
            admin_assign_vm_to_user px d user_id vid =
              (d, [], Inl (HTTPException 400
                             (''User already has VM '' @ str_int (a_vm_id a) @
                              '' assigned'')))" for a
    using assign_already[OF assms, of _ a px vid] by auto
  have 3: "user_id \<in> set (map u_id (users d))
            \<and> user_id \<notin> set (map a_user_id (vm_assignments d))
            \<and> snd (ProxmoxClient_get_vm_status px vid) = Inl e \<longrightarrow>
            admin_assign_vm_to_user px d user_id vid =
              (d, [CurrentGet vid],
               Inl (HTTPException 404
                      (''VM '' @ str_int vid @ '' not found in Proxmox: '' @ str_exn e)))" for e
    using assign_no_vm[OF assms(1), of _ px vid e] by auto
  have 4: "user_id \<in> set (map u_id (users d))
            \<and> user_id \<notin> set (map a_user_id (vm_assignments d))
            \<and> snd (ProxmoxClient_get_vm_status px vid) = Inr vm_status \<longrightarrow>
            (\<exists>usr\<in>set (users d). u_id usr = user_id
               \<and> admin_assign_vm_to_user px d user_id vid =
                   (d\<lparr> vm_assignments := vm_assignments d @
                          [\<lparr> a_id = vm_assignments_seq d, a_user_id = user_id, a_vm_id = vid,
                             a_vm_name = Some (vm_name vm_status),
                             a_created_at = clock d \<rparr>],
                       vm_assignments_seq := Suc (vm_assignments_seq d) \<rparr>,
                    [CurrentGet vid],
                    Inr \<lparr> var_id = vm_assignments_seq d, var_user_id = user_id,
                          var_vm_id = vid, var_vm_name = Some (vm_name vm_status),
                          var_created_at = clock d, var_user = usr \<rparr>))" for vm_status
    using assign_ok[OF assms(1), of _ px vid vm_status] by auto
  have 567: "(snd (snd (admin_assign_vm_to_user px d user_id vid)) = Inl x \<longrightarrow>
            fst (admin_assign_vm_to_user px d user_id vid) = d)
       \<and> unique_user_vm_assignment (fst (admin_assign_vm_to_user px d user_id vid))
       \<and> users_pkey (fst (admin_assign_vm_to_user px d user_id vid))"
  proof (cases "user_id \<in> set (map u_id (users d))")
    case False
    with 1 assms show ?thesis by simp
  next
    case u: True
    show ?thesis
    proof (cases "user_id \<in> set (map a_user_id (vm_assignments d))")
      case True
      then obtain b where "b \<in> set (vm_assignments d)" "a_user_id b = user_id" by auto
      with 2[of b] u assms show ?thesis by simp
    next
      case na: False
      show ?thesis
      proof (cases "snd (ProxmoxClient_get_vm_status px vid)")
        case (Inl e)
        with 3[of e] u na assms show ?thesis by simp
      next
        case (Inr st)
        with 4[of st] u na obtain usr where
          "admin_assign_vm_to_user px d user_id vid =
                   (d\<lparr> vm_assignments := vm_assignments d @
                          [\<lparr> a_id = vm_assignments_seq d, a_user_id = user_id, a_vm_id = vid,
                             a_vm_name = Some (vm_name st),
                             a_created_at = clock d \<rparr>],
                       vm_assignments_seq := Suc (vm_assignments_seq d) \<rparr>,
                    [CurrentGet vid],
                    Inr \<lparr> var_id = vm_assignments_seq d, var_user_id = user_id,
                          var_vm_id = vid, var_vm_name = Some (vm_name st),
                          var_created_at = clock d, var_user = usr \<rparr>)"
          by blast
        with na assms show ?thesis
          by (simp add: unique_user_vm_assignment_def users_pkey_def)
      qed
    qed
  qed
  from 1 2 3 4 567 show ?thesis by blast
qed

lemma str_int_7: "str_int 7 = ''7''"
  by code_simp

theorem assign_vm_to_user_cases_witness:
  "users_pkey sample_db \<and> unique_user_vm_assignment sample_db
   \<and> ''u-nobody'' \<notin> set (map u_id (users sample_db))
   \<and> admin_assign_vm_to_user sample_px sample_db ''u-nobody'' 106 =
       (sample_db, [], Inl (HTTPException 404 ''User not found''))
   \<and> ''u-alice'' \<in> set (map u_id (users sample_db))
   \<and> alice_assignment \<in> set (vm_assignments sample_db)
   \<and> a_user_id alice_assignment = ''u-alice''
   \<and> admin_assign_vm_to_user sample_px sample_db ''u-alice'' 106 =
       (sample_db, [], Inl (HTTPException 400 ''User already has VM 103 assigned''))
   \<and> ''u-bob'' \<in> set (map u_id (users sample_db))
   \<and> ''u-bob'' \<notin> set (map a_user_id (vm_assignments sample_db))
   \<and> snd (ProxmoxClient_get_vm_status sample_px 7) =
       Inl (Exception ''Failed to get VM status: no such VM'')
   \<and> admin_assign_vm_to_user sample_px sample_db ''u-bob'' 7 =
       (sample_db, [CurrentGet 7],
        Inl (HTTPException 404
               ''VM 7 not found in Proxmox: Failed to get VM status: no such VM''))
   \<and> snd (ProxmoxClient_get_vm_status sample_px 106) =
       Inr \<lparr> vm_id = 106, vm_name = ''ws-106'', status = ''running'', uptime = Some 0,
             cpu = Some 0, memory = Some 0, maxmem = Some 0, error = None \<rparr>
   \<and> vm_assignments (fst (admin_assign_vm_to_user sample_px sample_db ''u-bob'' 106)) =
       [alice_assignment, carol_assignment,
        \<lparr> a_id = 3, a_user_id = ''u-bob'', a_vm_id = 106, a_vm_name = Some ''ws-106'',
          a_created_at = 9 \<rparr>]
   \<and> unique_user_vm_assignment (fst (admin_assign_vm_to_user sample_px sample_db ''u-bob'' 106))"
proof -
  have k: "users_pkey sample_db" "unique_user_vm_assignment sample_db"
    by (simp_all add: users_pkey_def unique_user_vm_assignment_def sample_defs)
  have n: "''u-nobody'' \<notin> set (map u_id (users sample_db))"
    by (simp add: sample_defs)
  have a: "''u-alice'' \<in> set (map u_id (users sample_db))"
    "alice_assignment \<in> set (vm_assignments sample_db)"
    "a_user_id alice_assignment = ''u-alice''" "a_vm_id alice_assignment = 103"
    by (simp_all add: sample_defs)
  have b: "''u-bob'' \<in> set (map u_id (users sample_db))"
    "''u-bob'' \<notin> set (map a_user_id (vm_assignments sample_db))"
    by (simp_all add: sample_defs)
  have v7: "snd (ProxmoxClient_get_vm_status sample_px 7) =
       Inl (Exception ''Failed to get VM status: no such VM'')"
    by (simp add: ProxmoxClient_get_vm_status_def sample_px_def)
  have v106: "snd (ProxmoxClient_get_vm_status sample_px 106) =
       Inr \<lparr> vm_id = 106, vm_name = ''ws-106'', status = ''running'', uptime = Some 0,
             cpu = Some 0, memory = Some 0, maxmem = Some 0, error = None \<rparr>"
    by (simp add: ProxmoxClient_get_vm_status_def sample_px_def sample_cfg_def dict_get_def)
  note t = assign_vm_to_user_cases[OF k]
  from t[of "''u-nobody''" sample_px 106] n
  have 1: "admin_assign_vm_to_user sample_px sample_db ''u-nobody'' 106 =
       (sample_db, [], Inl (HTTPException 404 ''User not found''))"
    by blast
  from t[of "''u-alice''" sample_px 106 alice_assignment] a(1,2,3)
  have "admin_assign_vm_to_user sample_px sample_db ''u-alice'' 106 =
       (sample_db, [], Inl (HTTPException 400
           (''User already has VM '' @ str_int (a_vm_id alice_assignment) @ '' assigned'')))"
    by blast
  with a(4) have 2: "admin_assign_vm_to_user sample_px sample_db ''u-alice'' 106 =
       (sample_db, [], Inl (HTTPException 400 ''User already has VM 103 assigned''))"
    by (simp add: str_int_103)
  from t[of "''u-bob''" sample_px 7 _ "Exception ''Failed to get VM status: no such VM''"]
    b v7
  have "admin_assign_vm_to_user sample_px sample_db ''u-bob'' 7 =
       (sample_db, [CurrentGet 7],
        Inl (HTTPException 404
               (''VM '' @ str_int 7 @ '' not found in Proxmox: '' @
                str_exn (Exception ''Failed to get VM status: no such VM''))))"
    by blast
  then have 3: "admin_assign_vm_to_user sample_px sample_db ''u-bob'' 7 =
       (sample_db, [CurrentGet 7],
        Inl (HTTPException 404
               ''VM 7 not found in Proxmox: Failed to get VM status: no such VM''))"
    by (simp add: str_int_7)
  note t106 = t[of "''u-bob''" sample_px 106 _ _
      "\<lparr> vm_id = 106, vm_name = ''ws-106'', status = ''running'', uptime = Some 0,
         cpu = Some 0, memory = Some 0, maxmem = Some 0, error = None \<rparr>"]
  from t106 b v106
  have "\<exists>usr\<in>set (users sample_db). u_id usr = ''u-bob''
          \<and> admin_assign_vm_to_user sample_px sample_db ''u-bob'' 106 =
              (sample_db\<lparr> vm_assignments := vm_assignments sample_db @
                     [\<lparr> a_id = vm_assignments_seq sample_db, a_user_id = ''u-bob'',
                        a_vm_id = 106,
                        a_vm_name = Some (vm_name \<lparr> vm_id = 106, vm_name = ''ws-106'',
                           status = ''running'', uptime = Some 0,
                           cpu = Some 0, memory = Some 0, maxmem = Some 0, error = None \<rparr>),
                        a_created_at = clock sample_db \<rparr>],
                  vm_assignments_seq := Suc (vm_assignments_seq sample_db) \<rparr>,
               [CurrentGet 106],
               Inr \<lparr> var_id = vm_assignments_seq sample_db, var_user_id = ''u-bob'',
                     var_vm_id = 106,
                     var_vm_name = Some (vm_name \<lparr> vm_id = 106, vm_name = ''ws-106'',
                           status = ''running'', uptime = Some 0,
                           cpu = Some 0, memory = Some 0, maxmem = Some 0, error = None \<rparr>),
                     var_created_at = clock sample_db, var_user = usr \<rparr>)"
    by blast
  then have 4: "vm_assignments (fst (admin_assign_vm_to_user sample_px sample_db ''u-bob'' 106)) =
       [alice_assignment, carol_assignment,
        \<lparr> a_id = 3, a_user_id = ''u-bob'', a_vm_id = 106, a_vm_name = Some ''ws-106'',
          a_created_at = 9 \<rparr>]"
    by (auto simp: sample_db_def)
  from t106
  have 5: "unique_user_vm_assignment (fst (admin_assign_vm_to_user sample_px sample_db ''u-bob'' 106))"
    by blast
  from k n a(1,2,3) b v7 v106 1 2 3 4 5 show ?thesis by blast
qed

lemma db_delete_user_logs:
  "k < length (audit_logs d) \<Longrightarrow>
   audit_logs (db_delete_user d usr) ! k =
     (if l_user_id (audit_logs d ! k) = Some (u_id usr)
      then (audit_logs d ! k)\<lparr> l_user_id := None \<rparr> else audit_logs d ! k)"
  by (simp add: db_delete_user_def)

lemma db_delete_user_emails:
  "map l_user_email (audit_logs (db_delete_user d usr)) = map l_user_email (audit_logs d)"
  by (simp add: db_delete_user_def)

text \<open>
  Claim C6. Deleting an existing user removes the user's row and every assignment
  row of that user, so an assignment lookup for the user id finds nothing, and leaves the
  assignments of other users alone. The audit table keeps its length and order; a row
  that pointed to the deleted user is the old row with \<open>user_id\<close> set to null and every
  other field (the denormalised email among them) unchanged, and every other row is
  unchanged.
\<close>

theorem delete_user_cascade:
  assumes "users_pkey d" and "usr \<in> set (users d)"
  shows "snd (admin_delete_user d (u_id usr)) =
           Inr (''User '' @ u_email usr @ '' deleted successfully'')
       \<and> u_id usr \<notin> set (map u_id (users (fst (admin_delete_user d (u_id usr)))))
       \<and> assignments_of (fst (admin_delete_user d (u_id usr))) (u_id usr) = []
       \<and> vm_assignments (fst (admin_delete_user d (u_id usr))) =
            filter (\<lambda>a. a_user_id a \<noteq> u_id usr) (vm_assignments d)
       \<and> length (audit_logs (fst (admin_delete_user d (u_id usr)))) = length (audit_logs d)
       \<and> map l_user_email (audit_logs (fst (admin_delete_user d (u_id usr))))
            = map l_user_email (audit_logs d)
       \<and> (\<forall>k < length (audit_logs d).
            audit_logs (fst (admin_delete_user d (u_id usr))) ! k =
              (if l_user_id (audit_logs d ! k) = Some (u_id usr)
               then (audit_logs d ! k)\<lparr> l_user_id := None \<rparr>
               else audit_logs d ! k))"
proof -
  from user_lookup_one[OF assms]
  have r: "admin_delete_user d (u_id usr) =
            (db_delete_user d usr, Inr (''User '' @ u_email usr @ '' deleted successfully''))"
    by (simp add: admin_delete_user_def)
  have a: "assignments_of (db_delete_user d usr) (u_id usr) = []"
    by (simp add: assignments_of_def db_delete_user_def filter_empty_conv)
  have u: "u_id usr \<notin> set (map u_id (users (db_delete_user d usr)))"
    by (auto simp: db_delete_user_def)
  have v: "vm_assignments (db_delete_user d usr) =
            filter (\<lambda>a. a_user_id a \<noteq> u_id usr) (vm_assignments d)"
    by (simp add: db_delete_user_def)
  have l: "length (audit_logs (db_delete_user d usr)) = length (audit_logs d)"
    by (simp add: db_delete_user_def)
  show ?thesis
    unfolding r using a u v l db_delete_user_emails[of d usr] db_delete_user_logs[of _ d usr]
    by simp
qed

theorem delete_user_cascade_witness:
  "users_pkey sample_db \<and> alice \<in> set (users sample_db)
   \<and> (0::nat) < length (audit_logs sample_db) \<and> (1::nat) < length (audit_logs sample_db)
   \<and> snd (admin_delete_user sample_db ''u-alice'') =
        Inr ''User alice@example.com deleted successfully''
   \<and> assignments_of (fst (admin_delete_user sample_db ''u-alice'')) ''u-alice'' = []
   \<and> vm_assignments (fst (admin_delete_user sample_db ''u-alice'')) = [carol_assignment]
   \<and> audit_logs (fst (admin_delete_user sample_db ''u-alice'')) ! 0 =
        \<lparr> l_id = 1, l_user_id = None, l_user_email = ''alice@example.com'',
          l_action = ''start'', l_vm_id = 103, l_vm_name = Some ''ws-103'',
          l_success = True, l_error_message = None, l_ip_address = Some ''10.0.0.7'',
          l_timestamp = 7 \<rparr>
   \<and> audit_logs (fst (admin_delete_user sample_db ''u-alice'')) ! 1 = root_log
   \<and> length (audit_logs (fst (admin_delete_user sample_db ''u-alice''))) = 2"
proof -
  have k: "users_pkey sample_db" "alice \<in> set (users sample_db)"
    by (simp_all add: users_pkey_def sample_defs)
  have i: "u_id alice = ''u-alice''" "u_email alice = ''alice@example.com''"
    by (simp_all add: alice_def)
  have n: "(0::nat) < length (audit_logs sample_db)" "(1::nat) < length (audit_logs sample_db)"
    by (simp_all add: sample_db_def)
  note t = delete_user_cascade[OF k, unfolded i]
  from t have 1: "snd (admin_delete_user sample_db ''u-alice'') =
        Inr ''User alice@example.com deleted successfully''"
    by simp
  from t have 2: "assignments_of (fst (admin_delete_user sample_db ''u-alice'')) ''u-alice'' = []"
    by blast
  from t have "vm_assignments (fst (admin_delete_user sample_db ''u-alice'')) =
            filter (\<lambda>a. a_user_id a \<noteq> ''u-alice'') (vm_assignments sample_db)"
    by blast
  then have 3: "vm_assignments (fst (admin_delete_user sample_db ''u-alice'')) = [carol_assignment]"
    by (simp add: sample_db_def alice_assignment_def carol_assignment_def)
  from t have q: "\<forall>k < length (audit_logs sample_db).
            audit_logs (fst (admin_delete_user sample_db ''u-alice'')) ! k =
              (if l_user_id (audit_logs sample_db ! k) = Some ''u-alice''
               then (audit_logs sample_db ! k)\<lparr> l_user_id := None \<rparr>
               else audit_logs sample_db ! k)"
    by blast
  from q n(1) have 4: "audit_logs (fst (admin_delete_user sample_db ''u-alice'')) ! 0 =
        \<lparr> l_id = 1, l_user_id = None, l_user_email = ''alice@example.com'',
          l_action = ''start'', l_vm_id = 103, l_vm_name = Some ''ws-103'',
          l_success = True, l_error_message = None, l_ip_address = Some ''10.0.0.7'',
          l_timestamp = 7 \<rparr>"
    by (simp add: sample_db_def alice_log_def)
  from q n(2) have 5: "audit_logs (fst (admin_delete_user sample_db ''u-alice'')) ! 1 = root_log"
    by (simp add: sample_db_def root_log_def)
  from t have 6: "length (audit_logs (fst (admin_delete_user sample_db ''u-alice''))) = 2"
    by (simp add: sample_db_def)
  from k n 1 2 3 4 5 6 show ?thesis by blast
qed

section \<open>Login and bearer-token resolution\<close>

lemma scalar_one_or_none_Some:
  "scalar_one_or_none xs = Inr (Some x) \<Longrightarrow> xs = [x]"
  by (cases xs rule: scalar_one_or_none.cases) auto

lemma scalar_one_or_none_None:
  "scalar_one_or_none xs = Inr None \<Longrightarrow> xs = []"
  by (cases xs rule: scalar_one_or_none.cases) auto

lemma filter_single_mem:
  "filter P xs = [x] \<Longrightarrow> x \<in> set xs \<and> P x"
proof -
  assume "filter P xs = [x]"
  then have "x \<in> set (filter P xs)" by simp
  then show ?thesis by simp
qed

lemma login_unavailable:
  "post_token mail pw = RequestError x \<Longrightarrow>
   auth_login post_token d mail pw =
     (d, Inl (HTTPException 503 ''Authentication service unavailable''))"
  by (simp add: auth_login_def GoTrueClient_login_def)

lemma login_rejected:
  "post_token mail pw = Response c body \<Longrightarrow> c \<noteq> 200 \<Longrightarrow>
   auth_login post_token d mail pw = (d, Inl (HTTPException 401 ''Invalid credentials''))"
  by (simp add: auth_login_def GoTrueClient_login_def)

lemma login_invalid_response:
  "post_token mail pw = Response 200 body \<Longrightarrow>
   ar_user body = None \<or> (\<exists>g. ar_user body = Some g \<and> (falsy (gu_id g) \<or> falsy (gu_email g))) \<Longrightarrow>
   auth_login post_token d mail pw =
     (d, Inl (HTTPException 500 ''Invalid authentication response''))"
  by (auto simp: auth_login_def GoTrueClient_login_def Let_def)

lemma login_existing:
  assumes "users_pkey d"
    and "post_token mail pw = Response 200 body"
    and "ar_user body = Some \<lparr> gu_id = Some uid, gu_email = Some m \<rparr>"
    and "uid \<noteq> []" and "m \<noteq> []" and "ar_access_token body = Some tok"
    and "usr \<in> set (users d)" and "u_id usr = uid"
  shows "auth_login post_token d mail pw =
           (d, Inr \<lparr> tr_access_token = tok, tr_token_type = ''bearer'',
                     tr_expires_in = dict_get (ar_expires_in body) 3600, tr_user = usr \<rparr>)"
proof -
  from user_lookup_one[OF assms(1,7)] assms(8)
  have "filter (\<lambda>u. u_id u = uid) (users d) = [usr]" by simp
  with assms(2-6) show ?thesis
    by (simp add: auth_login_def GoTrueClient_login_def Let_def dict_get_def)
qed

lemma login_new:
  assumes "post_token mail pw = Response 200 body"
    and "ar_user body = Some \<lparr> gu_id = Some uid, gu_email = Some m \<rparr>"
    and "uid \<noteq> []" and "m \<noteq> []" and "ar_access_token body = Some tok"
    and "uid \<notin> set (map u_id (users d))" and "m \<notin> set (map u_email (users d))"
  shows "auth_login post_token d mail pw =
           (d\<lparr> users := users d @
                  [\<lparr> u_id = uid, u_email = m, u_is_admin = False, u_created_at = clock d \<rparr>] \<rparr>,
            Inr \<lparr> tr_access_token = tok, tr_token_type = ''bearer'',
                  tr_expires_in = dict_get (ar_expires_in body) 3600,
                  tr_user = \<lparr> u_id = uid, u_email = m, u_is_admin = False,
                              u_created_at = clock d \<rparr> \<rparr>)"
proof -
  from user_lookup_none[OF assms(6)]
  have "filter (\<lambda>u. u_id u = uid) (users d) = []" .
  moreover from assms(6,7)
  have "add_user d uid m False =
          Inr (d\<lparr> users := users d @
                  [\<lparr> u_id = uid, u_email = m, u_is_admin = False, u_created_at = clock d \<rparr>] \<rparr>,
               \<lparr> u_id = uid, u_email = m, u_is_admin = False, u_created_at = clock d \<rparr>)"
    by (simp add: add_user_def Let_def)
  ultimately show ?thesis using assms(1-5)
    by (simp add: auth_login_def GoTrueClient_login_def Let_def dict_get_def)
qed

lemma add_user_result:
  "add_user d uid m adm = Inr (d2, usr) \<Longrightarrow> usr \<in> set (users d2) \<and> u_id usr = uid"
  by (auto simp: add_user_def Let_def split: if_splits)

lemma login_success_only_if_accepted:
  assumes "snd (auth_login post_token d mail pw) = Inr r"
  shows "\<exists>body. post_token mail pw = Response 200 body
            \<and> ar_access_token body = Some (tr_access_token r)
            \<and> tr_user r \<in> set (users (fst (auth_login post_token d mail pw)))"
proof (cases "post_token mail pw")
  case (RequestError x)
  with assms login_unavailable[of post_token mail pw x d] show ?thesis by simp
next
  case (Response c body)
  show ?thesis
  proof (cases "c = 200")
    case False
    with assms Response login_rejected[of post_token mail pw c body d] show ?thesis by simp
  next
    case True
    with Response have g: "GoTrueClient_login post_token mail pw = Inr body"
      by (simp add: GoTrueClient_login_def)
    from assms g have "ar_access_token body = Some (tr_access_token r)
            \<and> tr_user r \<in> set (users (fst (auth_login post_token d mail pw)))"
      by (auto simp: auth_login_def Let_def
          split: if_splits sum.splits option.splits prod.splits
          dest!: scalar_one_or_none_Some filter_single_mem add_user_result)
    with Response True show ?thesis by simp
  qed
qed

lemma get_current_user_reads_only:
  "fst (get_current_user jwt_decode d token) = d"
  by (auto simp: get_current_user_def split: sum.splits prod.splits option.splits)

lemma get_current_user_not_provisioned:
  assumes "jwt_decode token = Payload (Some sub) (Some m)" and "sub \<noteq> []" and "m \<noteq> []"
    and "sub \<notin> set (map u_id (users d))"
  shows "get_current_user jwt_decode d token =
           (d, Inl (HTTPException 404 ''User not found in database''))"
  using assms(1-3) user_lookup_none[OF assms(4)]
  by (simp add: get_current_user_def verify_token_def dict_get_def)

text \<open>
  Claim C8, as the code has it. Login fails with 503 when the provider cannot be
  reached and with 401 when it answers anything but 200, and it succeeds only when the
  provider has accepted the credentials, returning the provider's token and a user that
  is in the local table afterwards. An accepted answer without a user id or an email is
  answered 500. An accepted answer with both and with a token succeeds when the subject
  id has a local row, which is returned and the store left as it is, and when it has none
  and no local user holds the email, in which case a row with \<open>is_admin = False\<close> is
  inserted and returned. Resolving a bearer token never writes to the store, and a valid
  token whose subject id has no local row is answered with an error (404).
\<close>

theorem login_and_bearer_resolution:
  assumes "users_pkey d"
  shows "(post_token mail pw = RequestError x \<longrightarrow>
            auth_login post_token d mail pw =
              (d, Inl (HTTPException 503 ''Authentication service unavailable'')))
       \<and> (post_token mail pw = Response c body \<and> c \<noteq> 200 \<longrightarrow>
            auth_login post_token d mail pw =
              (d, Inl (HTTPException 401 ''Invalid credentials'')))
       \<and> (post_token mail pw = Response 200 body
            \<and> (ar_user body = None
                 \<or> (\<exists>g. ar_user body = Some g \<and> (falsy (gu_id g) \<or> falsy (gu_email g)))) \<longrightarrow>
            auth_login post_token d mail pw =
              (d, Inl (HTTPException 500 ''Invalid authentication response'')))
       \<and> (post_token mail pw = Response 200 body
            \<and> ar_user body = Some \<lparr> gu_id = Some uid, gu_email = Some m \<rparr>
            \<and> uid \<noteq> [] \<and> m \<noteq> [] \<and> ar_access_token body = Some tok \<longrightarrow>
            (usr \<in> set (users d) \<and> u_id usr = uid \<longrightarrow>
               auth_login post_token d mail pw =
                 (d, Inr \<lparr> tr_access_token = tok, tr_token_type = ''bearer'',
                           tr_expires_in = dict_get (ar_expires_in body) 3600,
                           tr_user = usr \<rparr>))
          \<and> (uid \<notin> set (map u_id (users d)) \<and> m \<notin> set (map u_email (users d)) \<longrightarrow>
               auth_login post_token d mail pw =
                 (d\<lparr> users := users d @
                        [\<lparr> u_id = uid, u_email = m, u_is_admin = False,
                           u_created_at = clock d \<rparr>] \<rparr>,
                  Inr \<lparr> tr_access_token = tok, tr_token_type = ''bearer'',
                        tr_expires_in = dict_get (ar_expires_in body) 3600,
                        tr_user = \<lparr> u_id = uid, u_email = m, u_is_admin = False,
                                    u_created_at = clock d \<rparr> \<rparr>)))
       \<and> (snd (auth_login post_token d mail pw) = Inr r \<longrightarrow>
            (\<exists>b. post_token mail pw = Response 200 b
                \<and> ar_access_token b = Some (tr_access_token r)
                \<and> tr_user r \<in> set (users (fst (auth_login post_token d mail pw)))))
       \<and> fst (get_current_user jwt_decode d token) = d
       \<and> (jwt_decode token = Payload (Some sub) (Some m2) \<and> sub \<noteq> [] \<and> m2 \<noteq> []
            \<and> sub \<notin> set (map u_id (users d)) \<longrightarrow>
            snd (get_current_user jwt_decode d token) =
              Inl (HTTPException 404 ''User not found in database''))"
proof -
  note login_unavailable[of post_token mail pw x d]
    login_rejected[of post_token mail pw c body d]
    login_invalid_response[of post_token mail pw body d]
    login_existing[OF assms, of post_token mail pw body uid m tok usr]
    login_new[of post_token mail pw body uid m tok d]
    login_success_only_if_accepted[of post_token d mail pw r]
    get_current_user_reads_only[of jwt_decode d token]
    get_current_user_not_provisioned[of jwt_decode token sub m2 d]
  then show ?thesis by simp
qed

theorem login_and_bearer_resolution_witness:
  "users_pkey sample_db
   \<and> sample_post_token ''down@example.com'' ''correct horse'' = RequestError ''connection refused''
   \<and> auth_login sample_post_token sample_db ''down@example.com'' ''correct horse'' =
       (sample_db, Inl (HTTPException 503 ''Authentication service unavailable''))
   \<and> sample_post_token ''alice@example.com'' ''wrong'' =
       Response 400 \<lparr> ar_access_token = None, ar_expires_in = None, ar_user = None \<rparr>
   \<and> auth_login sample_post_token sample_db ''alice@example.com'' ''wrong'' =
       (sample_db, Inl (HTTPException 401 ''Invalid credentials''))
   \<and> alice \<in> set (users sample_db) \<and> u_id alice = ''u-alice''
   \<and> auth_login sample_post_token sample_db ''alice@example.com'' ''correct horse'' =
       (sample_db, Inr \<lparr> tr_access_token = ''tok-alice'', tr_token_type = ''bearer'',
                         tr_expires_in = 900, tr_user = alice \<rparr>)
   \<and> ''u-dave'' \<notin> set (map u_id (users sample_db))
   \<and> ''dave@example.com'' \<notin> set (map u_email (users sample_db))
   \<and> auth_login sample_post_token sample_db ''dave@example.com'' ''correct horse'' =
       (sample_db\<lparr> users := [root_user, alice, bob, carol,
                               \<lparr> u_id = ''u-dave'', u_email = ''dave@example.com'',
                                 u_is_admin = False, u_created_at = 9 \<rparr>] \<rparr>,
        Inr \<lparr> tr_access_token = ''tok-dave'', tr_token_type = ''bearer'',
              tr_expires_in = 3600,
              tr_user = \<lparr> u_id = ''u-dave'', u_email = ''dave@example.com'',
                          u_is_admin = False, u_created_at = 9 \<rparr> \<rparr>)
   \<and> sample_jwt_decode ''tok-dave'' = Payload (Some ''u-dave'') (Some ''dave@example.com'')
   \<and> get_current_user sample_jwt_decode sample_db ''tok-dave'' =
       (sample_db, Inl (HTTPException 404 ''User not found in database''))"
proof -
  have k: "users_pkey sample_db"
    by (simp add: users_pkey_def sample_defs)
  have p1: "sample_post_token ''down@example.com'' ''correct horse'' =
              RequestError ''connection refused''"
    by (simp add: sample_post_token_def)
  have p2: "sample_post_token ''alice@example.com'' ''wrong'' =
       Response 400 \<lparr> ar_access_token = None, ar_expires_in = None, ar_user = None \<rparr>"
    by (simp add: sample_post_token_def)
  have p3: "sample_post_token ''alice@example.com'' ''correct horse'' =
        Response 200 \<lparr> ar_access_token = Some ''tok-alice'', ar_expires_in = Some 900,
                       ar_user = Some \<lparr> gu_id = Some ''u-alice'',
                                        gu_email = Some ''alice@example.com'' \<rparr> \<rparr>"
    by (simp add: sample_post_token_def)
  have p4: "sample_post_token ''dave@example.com'' ''correct horse'' =
        Response 200 \<lparr> ar_access_token = Some ''tok-dave'', ar_expires_in = None,
                       ar_user = Some \<lparr> gu_id = Some ''u-dave'',
                                        gu_email = Some ''dave@example.com'' \<rparr> \<rparr>"
    by (simp add: sample_post_token_def)
  have a: "alice \<in> set (users sample_db)" "u_id alice = ''u-alice''"
    by (simp_all add: sample_defs)
  have n: "''u-dave'' \<notin> set (map u_id (users sample_db))"
    "''dave@example.com'' \<notin> set (map u_email (users sample_db))"
    by (simp_all add: sample_defs)
  have j: "sample_jwt_decode ''tok-dave'' = Payload (Some ''u-dave'') (Some ''dave@example.com'')"
    by (simp add: sample_jwt_decode_def)
  from login_and_bearer_resolution[OF k, where post_token = sample_post_token
      and mail = "''down@example.com''" and pw = "''correct horse''"
      and x = "''connection refused''", THEN conjunct1] p1
  have 1: "auth_login sample_post_token sample_db ''down@example.com'' ''correct horse'' =
       (sample_db, Inl (HTTPException 503 ''Authentication service unavailable''))"
    by blast
  from login_and_bearer_resolution[OF k, where post_token = sample_post_token
      and mail = "''alice@example.com''" and pw = "''wrong''" and c = 400
      and body = "\<lparr> ar_access_token = None, ar_expires_in = None, ar_user = None \<rparr>",
      THEN conjunct2, THEN conjunct1] p2
  have 2: "auth_login sample_post_token sample_db ''alice@example.com'' ''wrong'' =
       (sample_db, Inl (HTTPException 401 ''Invalid credentials''))"
    by simp
  from login_and_bearer_resolution[OF k, where post_token = sample_post_token
      and mail = "''alice@example.com''" and pw = "''correct horse''"
      and body = "\<lparr> ar_access_token = Some ''tok-alice'', ar_expires_in = Some 900,
                       ar_user = Some \<lparr> gu_id = Some ''u-alice'',
                                        gu_email = Some ''alice@example.com'' \<rparr> \<rparr>"
      and uid = "''u-alice''" and m = "''alice@example.com''" and tok = "''tok-alice''"
      and usr = alice,
      THEN conjunct2, THEN conjunct2, THEN conjunct2, THEN conjunct1] p3 a
  have 3: "auth_login sample_post_token sample_db ''alice@example.com'' ''correct horse'' =
       (sample_db, Inr \<lparr> tr_access_token = ''tok-alice'', tr_token_type = ''bearer'',
                         tr_expires_in = 900, tr_user = alice \<rparr>)"
    by (simp add: dict_get_def)
  from login_and_bearer_resolution[OF k, where post_token = sample_post_token
      and mail = "''dave@example.com''" and pw = "''correct horse''"
      and body = "\<lparr> ar_access_token = Some ''tok-dave'', ar_expires_in = None,
                       ar_user = Some \<lparr> gu_id = Some ''u-dave'',
                                        gu_email = Some ''dave@example.com'' \<rparr> \<rparr>"
      and uid = "''u-dave''" and m = "''dave@example.com''" and tok = "''tok-dave''",
      THEN conjunct2, THEN conjunct2, THEN conjunct2, THEN conjunct1] p4 n
  have 4: "auth_login sample_post_token sample_db ''dave@example.com'' ''correct horse'' =
       (sample_db\<lparr> users := [root_user, alice, bob, carol,
                               \<lparr> u_id = ''u-dave'', u_email = ''dave@example.com'',
                                 u_is_admin = False, u_created_at = 9 \<rparr>] \<rparr>,
        Inr \<lparr> tr_access_token = ''tok-dave'', tr_token_type = ''bearer'',
              tr_expires_in = 3600,
              tr_user = \<lparr> u_id = ''u-dave'', u_email = ''dave@example.com'',
                          u_is_admin = False, u_created_at = 9 \<rparr> \<rparr>)"
    by (simp add: dict_get_def sample_db_def)
  from login_and_bearer_resolution[OF k, where jwt_decode = sample_jwt_decode
      and token = "''tok-dave''" and sub = "''u-dave''" and ?m2.0 = "''dave@example.com''",
      THEN conjunct2, THEN conjunct2, THEN conjunct2, THEN conjunct2, THEN conjunct2] j n(1)
  have 5: "get_current_user sample_jwt_decode sample_db ''tok-dave'' =
       (sample_db, Inl (HTTPException 404 ''User not found in database''))"
    by (simp add: prod_eq_iff)
  from k p1 p2 a n j 1 2 3 4 5 show ?thesis by blast
qed

text \<open>
  Two logins that the provider accepts and that fail all the same: an accepted answer
  without a user id runs into the route's own check, and an accepted answer for a new
  subject id whose email another local user holds is refused by the unique email.
\<close>

theorem accepted_login_can_fail:
  "GoTrueClient_login sample_post_token ''ghost@example.com'' ''correct horse'' =
     Inr \<lparr> ar_access_token = Some ''tok-ghost'', ar_expires_in = None,
           ar_user = Some \<lparr> gu_id = None, gu_email = Some ''ghost@example.com'' \<rparr> \<rparr>
   \<and> auth_login sample_post_token sample_db ''ghost@example.com'' ''correct horse'' =
       (sample_db, Inl (HTTPException 500 ''Invalid authentication response''))
   \<and> GoTrueClient_login sample_post_token ''carol@example.com'' ''correct horse'' =
     Inr \<lparr> ar_access_token = Some ''tok-carol'', ar_expires_in = None,
           ar_user = Some \<lparr> gu_id = Some ''u-carol-2'',
                            gu_email = Some ''carol@example.com'' \<rparr> \<rparr>
   \<and> auth_login sample_post_token sample_db ''carol@example.com'' ''correct horse'' =
       (sample_db, Inl (IntegrityError ''users_email_key''))"
  by (simp add: auth_login_def GoTrueClient_login_def sample_post_token_def Let_def
      add_user_def dict_get_def sample_defs)

end
